theory Spec2Isabelle
  imports Complex_Main
begin

section \<open>DelayShield worker: a shallow embedding of \<open>services/worker/src/tasks.py\<close>\<close>

text \<open>
  The worker recalculates the delay risk of a trip: it consumes quota from three
  counters, asks a route provider and a forecast provider, derives a risk percentage and
  a status glyph, and schedules the next recalculation.  The definitions below follow
  the Python functions of \<open>tasks.py\<close> one by one and keep their names (without the
  leading underscore, which is not an Isabelle identifier).
\<close>

subsection \<open>Time\<close>

text \<open>
  A timezone-aware UTC \<open>datetime\<close> is the number of microseconds since the epoch, a
  \<open>timedelta\<close> a number of microseconds, a \<open>date\<close> a day number.  Python
  restricts \<open>datetime\<close> to the years 1 to 9999 and raises \<open>OverflowError\<close> outside;
  the model works on the unbounded line, every time of the worker being derived from the
  wall clock.
\<close>

type_synonym datetime = int
type_synonym timedelta = int
type_synonym day = int

definition seconds :: "int \<Rightarrow> timedelta" where
  "seconds n = n * 1000000"

definition minutes :: "int \<Rightarrow> timedelta" where
  "minutes n = n * 60000000"

subsection \<open>Status glyphs\<close>

text \<open>
  A Python \<open>str\<close> is modelled by its UTF-8 encoding, on which equality of strings is
  equality of byte lists.  The three status values are the code points U+1F7E2 (green
  circle), U+1F7E1 (yellow circle) and U+1F534 (red circle).
\<close>

definition green :: string where
  "green = [CHR 0xF0, CHR 0x9F, CHR 0x9F, CHR 0xA2]"

definition yellow :: string where
  "yellow = [CHR 0xF0, CHR 0x9F, CHR 0x9F, CHR 0xA1]"

definition red :: string where
  "red = [CHR 0xF0, CHR 0x9F, CHR 0x94, CHR 0xB4]"

subsection \<open>Departure recommendation and recalculation interval\<close>

text \<open>
  \<^verbatim>\<open>
  def _recommend_depart(now, status, buffer_minutes):
    if status == green: return now
    if status == yellow: return now - timedelta(minutes=30 if buffer_minutes < 120 else 15)
    return now - timedelta(minutes=60 if buffer_minutes < 60 else 30)
  \<close>
\<close>

definition recommend_depart :: "datetime \<Rightarrow> string \<Rightarrow> int \<Rightarrow> datetime" where
  "recommend_depart now status buffer_minutes =
     (if status = green then now
      else if status = yellow
        then now - minutes (if buffer_minutes < 120 then 30 else 15)
      else now - minutes (if buffer_minutes < 60 then 60 else 30))"

text \<open>
  \<^verbatim>\<open>
  def _next_interval_seconds(mode, status, budget_limited):
    if budget_limited:
      return 45 * 60
    if mode == "conservative":
      return 60*60 if status==green else (25*60 if status==yellow else 8*60)
    if mode == "aggressive":
      return 20*60 if status==green else (8*60 if status==yellow else 2*60)
    return 40*60 if status==green else (15*60 if status==yellow else 5*60)
  \<close>
\<close>

definition next_interval_seconds :: "string \<Rightarrow> string \<Rightarrow> bool \<Rightarrow> int" where
  "next_interval_seconds mode status budget_limited =
     (if budget_limited then 45 * 60
      else if mode = ''conservative''
        then (if status = green then 60 * 60
              else if status = yellow then 25 * 60 else 8 * 60)
      else if mode = ''aggressive''
        then (if status = green then 20 * 60
              else if status = yellow then 8 * 60 else 2 * 60)
      else (if status = green then 40 * 60
            else if status = yellow then 15 * 60 else 5 * 60))"

subsection \<open>Floating point\<close>

text \<open>
  A Python \<open>float\<close> is an IEEE 754 binary64 number.  A finite one is modelled by
  the rational it denotes, and every operation by the exact operation followed by
  \<open>fl\<close>, the rounding to the nearest number with a 53-bit significand, ties to
  the even significand: this is what IEEE 754 prescribes for \<open>+\<close>, \<open>*\<close>,
  \<open>/\<close>, for the conversion of a decimal literal and for the division of two
  integers.  The exponent range is not modelled (no overflow to infinity, no subnormal
  numbers), nor are infinities and NaN; the quantities of the worker (seconds,
  percentages, weather measurements) are far from both ends of the range.

  \<open>bitlen n\<close> is the number of binary digits of \<open>n\<close>, \<open>ilog2 x\<close> the
  integer \<open>e\<close> with \<open>2 ^ e \<le> x < 2 ^ (e + 1)\<close> for a positive \<open>x\<close>, and
  \<open>rhe\<close> is Python's \<open>round\<close> of a float to an integer: to the nearest
  integer, a tie going to the even one.
\<close>

fun bitlen :: "nat \<Rightarrow> nat" where
  "bitlen n = (if n = 0 then 0 else Suc (bitlen (n div 2)))"

definition ilog2 :: "rat \<Rightarrow> int" where
  "ilog2 x = (let (p, q) = quotient_of x;
                  k = int (bitlen (nat p)) - int (bitlen (nat q))
              in if 2 powi k \<le> x then k else k - 1)"

definition rhe :: "rat \<Rightarrow> int" where
  "rhe x = (let f = \<lfloor>x\<rfloor>; r = x - of_int f
            in if r < 1/2 then f else if 1/2 < r then f + 1
               else if even f then f else f + 1)"

definition fl :: "rat \<Rightarrow> rat" where
  "fl x = (if x = 0 then 0
           else let u = 2 powi (ilog2 \<bar>x\<bar> - 52) in of_int (rhe (x / u)) * u)"

text \<open>
  Python's \<open>min(a, b)\<close> and \<open>max(a, b)\<close> return \<open>a\<close> unless \<open>b\<close> is
  strictly smaller (larger).  \<open>timedelta.total_seconds()\<close> divides the number of
  microseconds by \<open>10 ** 6\<close>.
\<close>

definition py_min :: "rat \<Rightarrow> rat \<Rightarrow> rat" where
  "py_min a b = (if b < a then b else a)"

definition py_max :: "rat \<Rightarrow> rat \<Rightarrow> rat" where
  "py_max a b = (if a < b then b else a)"

definition total_seconds :: "timedelta \<Rightarrow> rat" where
  "total_seconds td = fl (of_int td / 1000000)"

subsection \<open>The persisted data model\<close>

text \<open>
  The five tables of the worker.  A nullable column is an \<open>option\<close>; the JSONB column
  \<open>waypoints\<close> is read only through \<open>waypoints.get("points")\<close>, so it is
  modelled by the value of that key (\<open>None\<close> when the key is absent or null).  A
  coordinate of a point is \<open>None\<close> when the key is absent or its value is not a
  number, in which case \<open>float(p["lat"])\<close> raises.  The route geometry is an opaque
  GeoJSON document, kept here as the list of its coordinates.
\<close>

type_synonym trip_id = nat
type_synonym geometry = "(rat \<times> rat) list"

record point =
  lat :: "rat option"
  lon :: "rat option"

text \<open>
  The texts \<open>why\<close> and \<open>customer_message\<close> are f-strings; the model keeps the
  values they interpolate: the buffer and the severity (printed with two decimals) for
  the former; the status, the ETA, the deadline, the \<open>why\<close> text and the suggestion
  for the latter.
\<close>

datatype why_text = Why int rat

datatype message_text = Message string datetime datetime why_text string

record trip =
  trip_id :: trip_id
  deadline_at :: datetime
  waypoints :: "point list option"
  eta_at :: "datetime option"
  route_distance_m :: "int option"
  route_duration_s :: "int option"
  route_geojson :: "geometry option"
  buffer_minutes :: "int option"
  delay_risk_pct :: "int option"
  status :: "string option"
  suggestion :: "string option"
  recommended_depart_at :: "datetime option"
  why :: "why_text option"
  customer_message :: "message_text option"
  policy_mode :: string
  trip_owm_daily_cap :: int
  trip_route_daily_cap :: int
  next_calc_at :: "datetime option"
  last_calc_at :: "datetime option"
  calc_state :: string

text \<open>
  The reason returned by a denied \<open>_consume_budget\<close> is an f-string; the model keeps
  the values it interpolates: the API name, the counter read, the limit and, for the
  per-minute cap, the bucket.
\<close>

datatype reason =
    Global_daily_limit string int int
  | Per_min_limit string int int datetime
  | Trip_daily_cap string int int
  | Ok

text \<open>
  The weather record \<open>wx\<close> that a recalculation stores in its \<open>recalc_done\<close>
  event, one constructor for each dictionary the code builds.
\<close>

datatype weather =
    No_forecast
  | Forecast_slot rat string rat rat rat rat int
  | Weather_denied reason
  | Weather_error string

text \<open>
  An audit event: a row of \<open>trip_updates\<close>.  Its payload is a JSON dictionary, one
  constructor for each shape the worker writes.  The columns \<open>id\<close> (autoincrement)
  and \<open>at\<close> (server default) are filled by the database: the position in the list
  stands for the former, the latter is not modelled.
\<close>

datatype payload =
    Running_payload datetime
  | Error_payload string string
  | Denied_payload string reason
  | Consume_payload string string int
  | Queued_payload string
  | Done_payload "int option" "int option" "geometry option" string weather int datetime why_text

record trip_update =
  update_trip_id :: trip_id
  kind :: string
  payload :: payload

record usage =
  owm_calls :: int
  route_calls :: int

record store =
  trips :: "trip_id \<rightharpoonup> trip"
  trip_updates :: "trip_update list"
  api_usage_daily :: "string \<times> day \<rightharpoonup> int"
  api_usage_minute :: "string \<times> datetime \<rightharpoonup> int"
  trip_api_usage_daily :: "trip_id \<times> day \<rightharpoonup> usage"

text \<open>
  A SQLAlchemy session: what the database holds (\<open>committed\<close>) and what the open
  transaction sees (\<open>pending\<close>).  \<open>db.execute\<close> changes the pending store,
  \<open>db.commit()\<close> makes it the committed one, and leaving the \<open>with Session()\<close>
  block, by a return or by an exception, drops what was not committed.
\<close>

record session =
  committed :: store
  pending :: store

definition open_session :: "store \<Rightarrow> session" where
  "open_session st = \<lparr>committed = st, pending = st\<rparr>"

definition execute :: "(store \<Rightarrow> store) \<Rightarrow> session \<Rightarrow> session" where
  "execute f db = db\<lparr>pending := f (pending db)\<rparr>"

definition commit :: "session \<Rightarrow> session" where
  "commit db = db\<lparr>committed := pending db\<rparr>"

definition close_session :: "session \<Rightarrow> store" where
  "close_session db = committed db"

definition insert_trip_update :: "trip_id \<Rightarrow> string \<Rightarrow> payload \<Rightarrow> store \<Rightarrow> store" where
  "insert_trip_update tid k p st =
     st\<lparr>trip_updates := trip_updates st @ [\<lparr>update_trip_id = tid, kind = k, payload = p\<rparr>]\<rparr>"

definition update_trip :: "trip_id \<Rightarrow> (trip \<Rightarrow> trip) \<Rightarrow> store \<Rightarrow> store" where
  "update_trip tid f st =
     (case trips st tid of
        None \<Rightarrow> st
      | Some t \<Rightarrow> st\<lparr>trips := (trips st)(tid \<mapsto> f t)\<rparr>)"

text \<open>The configuration read from the environment when the module is loaded.\<close>

record config =
  OWM_DAILY_LIMIT :: int
  ROUTE_DAILY_LIMIT :: int
  OWM_PER_MIN_LIMIT :: int
  ROUTE_PER_MIN_LIMIT :: int

datatype exn =
    AttributeError
  | KeyError
  | TypeError
  | RuntimeError
  | DatabaseError
  | HTTPError string

subsection \<open>The risk model\<close>

text \<open>
  \<^verbatim>\<open>
  def _risk(deadline, eta, sev):
    slack_s = (deadline - eta).total_seconds()
    base = 0.10 if slack_s >= 4*3600 else (0.20 if slack_s >= 2*3600 else
           (0.40 if slack_s >= 0 else (0.70 if slack_s >= -2*3600 else 0.85)))
    risk = min(0.99, max(0.0, base + 0.25*sev))
    pct = int(round(risk*100))
    status = green if pct < 34 else (yellow if pct < 67 else red)
    buffer_minutes = int(round(slack_s/60.0))
    why = f"buffer={buffer_minutes}min, weather_sev={sev:.2f}"
    if status == green: sugg = "Manter rota. ..."
    elif status == yellow: sugg = "Considere antecipar ..."
    else: sugg = "ALTO risco: ..."
    return pct, status, buffer_minutes, why, sugg
  \<close>
  The three suggestions are the Portuguese sentences of the source, in UTF-8.
\<close>

definition suggestion_green :: string where
  "suggestion_green = ''Manter rota. Recalcular mais perto do prazo.''"

definition suggestion_yellow :: string where
  "suggestion_yellow = ''Considere antecipar sa'' @ [CHR 0xC3, CHR 0xAD] @ ''da e avisar cliente sobre poss'' @ [CHR 0xC3, CHR 0xAD] @ ''vel varia'' @ [CHR 0xC3, CHR 0xA7] @ [CHR 0xC3, CHR 0xA3] @ ''o.''"

definition suggestion_red :: string where
  "suggestion_red = ''ALTO risco: antecipar/alternar rota e ALERTAR cliente agora.''"

definition risk :: "datetime \<Rightarrow> datetime \<Rightarrow> rat \<Rightarrow> int \<times> string \<times> int \<times> why_text \<times> string" where
  "risk deadline eta sev =
     (let slack_s = total_seconds (deadline - eta);
          base = (if slack_s \<ge> 4 * 3600 then fl (10 / 100)
                  else if slack_s \<ge> 2 * 3600 then fl (20 / 100)
                  else if slack_s \<ge> 0 then fl (40 / 100)
                  else if slack_s \<ge> - 2 * 3600 then fl (70 / 100)
                  else fl (85 / 100));
          rsk = py_min (fl (99 / 100)) (py_max 0 (fl (base + fl (fl (25 / 100) * sev))));
          pct = rhe (fl (rsk * 100));
          stat = (if pct < 34 then green else if pct < 67 then yellow else red);
          buf = rhe (fl (slack_s / 60));
          sugg = (if stat = green then suggestion_green
                  else if stat = yellow then suggestion_yellow
                  else suggestion_red)
      in (pct, stat, buf, Why buf sev, sugg))"

text \<open>
  The risk model as the specification words it, on exact numbers: \<open>slack_s\<close> is the
  difference in seconds, \<open>clamp\<close> limits a value to an interval, and \<open>round\<close>
  is the rounding to the nearest integer with a tie going upwards, as in the
  specification's own scenarios (\<open>round(12.5) = 13\<close> in the first,
  \<open>round(52.5) = 53\<close> in the second).
\<close>

definition clamp :: "rat \<Rightarrow> rat \<Rightarrow> rat \<Rightarrow> rat" where
  "clamp x lo hi = (if x < lo then lo else if hi < x then hi else x)"

definition spec_base :: "rat \<Rightarrow> rat" where
  "spec_base slack_s =
     (if slack_s \<ge> 14400 then 10 / 100
      else if slack_s \<ge> 7200 then 20 / 100
      else if slack_s \<ge> 0 then 40 / 100
      else if slack_s \<ge> - 7200 then 70 / 100
      else 85 / 100)"

definition spec_status :: "int \<Rightarrow> string" where
  "spec_status pct = (if pct < 34 then green else if pct < 67 then yellow else red)"

definition spec_risk :: "datetime \<Rightarrow> datetime \<Rightarrow> rat \<Rightarrow> int \<times> string \<times> int" where
  "spec_risk deadline eta severity =
     (let slack_s = of_int (deadline - eta) / 1000000;
          pct = round (clamp (spec_base slack_s + 25 / 100 * severity) 0 (99 / 100) * 100)
      in (pct, spec_status pct, round (slack_s / 60)))"

text \<open>
  The same with the arithmetic of the code: binary64 operations, and \<open>round\<close> with
  a tie going to the even integer.
\<close>

definition float_base :: "rat \<Rightarrow> rat" where
  "float_base slack_s =
     (if slack_s \<ge> 14400 then fl (10 / 100)
      else if slack_s \<ge> 7200 then fl (20 / 100)
      else if slack_s \<ge> 0 then fl (40 / 100)
      else if slack_s \<ge> - 7200 then fl (70 / 100)
      else fl (85 / 100))"

definition float_risk :: "datetime \<Rightarrow> datetime \<Rightarrow> rat \<Rightarrow> int \<times> string \<times> int" where
  "float_risk deadline eta severity =
     (let slack_s = fl (of_int (deadline - eta) / 1000000);
          pct = rhe (fl (clamp (fl (float_base slack_s + fl (fl (25 / 100) * severity))) 0
                           (fl (99 / 100)) * 100))
      in (pct, spec_status pct, rhe (fl (slack_s / 60))))"

subsection \<open>The quota ledger\<close>

text \<open>
  \<open>_minute_bucket(dt) = dt.replace(second=0, microsecond=0)\<close>: the start of the
  minute of \<open>dt\<close>.  In UTC every minute has sixty seconds and the epoch starts one.
\<close>

definition minute_bucket :: "datetime \<Rightarrow> datetime" where
  "minute_bucket dt = dt - dt mod 60000000"

definition ensure_usage_row_daily :: "string \<Rightarrow> day \<Rightarrow> store \<Rightarrow> store" where
  "ensure_usage_row_daily api_name d st =
     (case api_usage_daily st (api_name, d) of
        None \<Rightarrow> st\<lparr>api_usage_daily := (api_usage_daily st)((api_name, d) \<mapsto> 0)\<rparr>
      | Some row \<Rightarrow> st)"

definition ensure_usage_row_minute :: "string \<Rightarrow> datetime \<Rightarrow> store \<Rightarrow> store" where
  "ensure_usage_row_minute api_name mb st =
     (case api_usage_minute st (api_name, mb) of
        None \<Rightarrow> st\<lparr>api_usage_minute := (api_usage_minute st)((api_name, mb) \<mapsto> 0)\<rparr>
      | Some row \<Rightarrow> st)"

definition ensure_trip_usage_daily :: "trip_id \<Rightarrow> day \<Rightarrow> store \<Rightarrow> store" where
  "ensure_trip_usage_daily tid d st =
     (case trip_api_usage_daily st (tid, d) of
        None \<Rightarrow> st\<lparr>trip_api_usage_daily :=
                      (trip_api_usage_daily st)((tid, d) \<mapsto> \<lparr>owm_calls = 0, route_calls = 0\<rparr>)\<rparr>
      | Some row \<Rightarrow> st)"

text \<open>
  What one call of \<open>_consume_budget\<close> reads from outside: the clock
  (\<open>datetime.now(timezone.utc)\<close> and \<open>date.today()\<close>), and whether the database
  accepts the insert of the \<open>budget_consume\<close> audit row (the one database fault the
  model injects).
\<close>

record consume_env =
  clock_now :: datetime
  clock_today :: day
  audit_insert_fails :: bool

text \<open>
  \<^verbatim>\<open>
  def _consume_budget(db, trip, api_name, kind, amount=1):
    now = datetime.now(timezone.utc); d = date.today(); mb = _minute_bucket(now)
    if api_name == "owm":
      daily_limit = OWM_DAILY_LIMIT; per_min = OWM_PER_MIN_LIMIT
      trip_cap = int(trip.trip_owm_daily_cap)
    else:
      daily_limit = ROUTE_DAILY_LIMIT; per_min = ROUTE_PER_MIN_LIMIT
      trip_cap = int(trip.trip_route_daily_cap)
    _ensure_usage_row_daily(db, api_name, d)
    _ensure_usage_row_minute(db, api_name, mb)
    _ensure_trip_usage_daily(db, trip.id, d)
    db.commit()
    gd = db.scalar(select(ApiUsageDaily)...with_for_update())
    gm = db.scalar(select(ApiUsageMinute)...with_for_update())
    tu = db.scalar(select(TripApiUsageDaily)...with_for_update())
    if gd.calls + amount > daily_limit: return (False, ...)
    if gm.calls + amount > per_min: return (False, ...)
    if api_name == "owm" and (tu.owm_calls + amount > trip_cap): return (False, ...)
    if api_name == "route" and (tu.route_calls + amount > trip_cap): return (False, ...)
    gd.calls += amount
    gm.calls += amount
    if api_name == "owm": tu.owm_calls += amount
    else: tu.route_calls += amount
    db.commit()
    db.execute(insert(TripUpdate).values(trip_id=trip.id, kind="budget_consume", ...))
    db.commit()
    return (True, "ok")
  \<close>
  A select that finds no row gives \<open>None\<close>, on which \<open>gd.calls\<close> raises
  \<open>AttributeError\<close>; the rows exist after the three \<open>_ensure\<close> calls.
\<close>

definition add_calls :: "string \<Rightarrow> day \<Rightarrow> datetime \<Rightarrow> trip_id \<Rightarrow> int \<Rightarrow> int \<Rightarrow> usage \<Rightarrow> int
    \<Rightarrow> store \<Rightarrow> store" where
  "add_calls api_name d mb tid gd gm tu amount st =
     st\<lparr>api_usage_daily := (api_usage_daily st)((api_name, d) \<mapsto> gd + amount),
        api_usage_minute := (api_usage_minute st)((api_name, mb) \<mapsto> gm + amount),
        trip_api_usage_daily := (trip_api_usage_daily st)((tid, d) \<mapsto>
          (if api_name = ''owm'' then tu\<lparr>owm_calls := owm_calls tu + amount\<rparr>
           else tu\<lparr>route_calls := route_calls tu + amount\<rparr>))\<rparr>"

definition consume_budget ::
  "config \<Rightarrow> consume_env \<Rightarrow> session \<Rightarrow> trip \<Rightarrow> string \<Rightarrow> string \<Rightarrow> int
     \<Rightarrow> session \<times> (exn + bool \<times> reason)" where
  "consume_budget cfg env db trip api_name knd amount =
     (let now = clock_now env;
          d = clock_today env;
          mb = minute_bucket now;
          daily_limit = (if api_name = ''owm'' then OWM_DAILY_LIMIT cfg else ROUTE_DAILY_LIMIT cfg);
          per_min = (if api_name = ''owm'' then OWM_PER_MIN_LIMIT cfg else ROUTE_PER_MIN_LIMIT cfg);
          trip_cap = (if api_name = ''owm'' then trip_owm_daily_cap trip
                      else trip_route_daily_cap trip);
          db1 = commit (execute (ensure_trip_usage_daily (trip_id trip) d)
                  (execute (ensure_usage_row_minute api_name mb)
                    (execute (ensure_usage_row_daily api_name d) db)))
      in case api_usage_daily (pending db1) (api_name, d) of
           None \<Rightarrow> (db1, Inl AttributeError)
         | Some gd \<Rightarrow>
       (case api_usage_minute (pending db1) (api_name, mb) of
           None \<Rightarrow> (db1, Inl AttributeError)
         | Some gm \<Rightarrow>
       (case trip_api_usage_daily (pending db1) (trip_id trip, d) of
           None \<Rightarrow> (db1, Inl AttributeError)
         | Some tu \<Rightarrow>
           if gd + amount > daily_limit
             then (db1, Inr (False, Global_daily_limit api_name gd daily_limit))
           else if gm + amount > per_min
             then (db1, Inr (False, Per_min_limit api_name gm per_min mb))
           else if api_name = ''owm'' \<and> owm_calls tu + amount > trip_cap
             then (db1, Inr (False, Trip_daily_cap ''owm'' (owm_calls tu) trip_cap))
           else if api_name = ''route'' \<and> route_calls tu + amount > trip_cap
             then (db1, Inr (False, Trip_daily_cap ''route'' (route_calls tu) trip_cap))
           else
             let db2 = commit (execute (add_calls api_name d mb (trip_id trip) gd gm tu amount) db1)
             in if audit_insert_fails env then (db2, Inl DatabaseError)
                else (commit (execute (insert_trip_update (trip_id trip) ''budget_consume''
                                (Consume_payload api_name knd amount)) db2),
                      Inr (True, Ok)))))"

text \<open>
  The value of a counter: the row's count, and 0 while the row does not exist (rows are
  created with count 0 on first use).
\<close>

definition daily_calls :: "store \<Rightarrow> string \<Rightarrow> day \<Rightarrow> int" where
  "daily_calls st api_name d = (case api_usage_daily st (api_name, d) of None \<Rightarrow> 0 | Some c \<Rightarrow> c)"

definition minute_calls :: "store \<Rightarrow> string \<Rightarrow> datetime \<Rightarrow> int" where
  "minute_calls st api_name mb = (case api_usage_minute st (api_name, mb) of None \<Rightarrow> 0 | Some c \<Rightarrow> c)"

definition trip_calls :: "store \<Rightarrow> string \<Rightarrow> trip_id \<Rightarrow> day \<Rightarrow> int" where
  "trip_calls st api_name tid d =
     (case trip_api_usage_daily st (tid, d) of
        None \<Rightarrow> 0
      | Some u \<Rightarrow> if api_name = ''owm'' then owm_calls u else route_calls u)"

definition daily_limit_of :: "config \<Rightarrow> string \<Rightarrow> int" where
  "daily_limit_of cfg api_name =
     (if api_name = ''owm'' then OWM_DAILY_LIMIT cfg else ROUTE_DAILY_LIMIT cfg)"

definition per_min_limit_of :: "config \<Rightarrow> string \<Rightarrow> int" where
  "per_min_limit_of cfg api_name =
     (if api_name = ''owm'' then OWM_PER_MIN_LIMIT cfg else ROUTE_PER_MIN_LIMIT cfg)"

definition trip_cap_of :: "trip \<Rightarrow> string \<Rightarrow> int" where
  "trip_cap_of t api_name =
     (if api_name = ''owm'' then trip_owm_daily_cap t else trip_route_daily_cap t)"

text \<open>One of the three caps would be exceeded by adding \<open>amount\<close>.\<close>

definition exceeds_a_cap :: "config \<Rightarrow> store \<Rightarrow> trip \<Rightarrow> string \<Rightarrow> day \<Rightarrow> datetime \<Rightarrow> int \<Rightarrow> bool" where
  "exceeds_a_cap cfg st t api_name d mb amount =
     (daily_calls st api_name d + amount > daily_limit_of cfg api_name
      \<or> minute_calls st api_name mb + amount > per_min_limit_of cfg api_name
      \<or> trip_calls st api_name (trip_id t) d + amount > trip_cap_of t api_name)"

text \<open>
  A sequence of consume calls on one database.  Each call brings its own clock reading
  and its own view of the trip row.
\<close>

record consume_call =
  call_env :: consume_env
  call_trip :: trip
  call_api :: string
  call_kind :: string
  call_amount :: int

fun consume_all :: "config \<Rightarrow> session \<Rightarrow> consume_call list \<Rightarrow> session" where
  "consume_all cfg db [] = db"
| "consume_all cfg db (c # cs) =
     consume_all cfg
       (fst (consume_budget cfg (call_env c) db (call_trip c) (call_api c) (call_kind c)
          (call_amount c))) cs"

text \<open>
  No counter of the two APIs is above its cap: the global daily and per-minute limits of
  the configuration, and for each trip the caps \<open>caps tid\<close> of its row
  (\<open>(owm cap, route cap)\<close>).
\<close>

definition within_caps :: "config \<Rightarrow> (trip_id \<Rightarrow> int \<times> int) \<Rightarrow> store \<Rightarrow> bool" where
  "within_caps cfg caps st =
     (\<forall>d mb tid.
        daily_calls st ''owm'' d \<le> OWM_DAILY_LIMIT cfg
      \<and> daily_calls st ''route'' d \<le> ROUTE_DAILY_LIMIT cfg
      \<and> minute_calls st ''owm'' mb \<le> OWM_PER_MIN_LIMIT cfg
      \<and> minute_calls st ''route'' mb \<le> ROUTE_PER_MIN_LIMIT cfg
      \<and> trip_calls st ''owm'' tid d \<le> fst (caps tid)
      \<and> trip_calls st ''route'' tid d \<le> snd (caps tid))"

definition call_ok :: "(trip_id \<Rightarrow> int \<times> int) \<Rightarrow> consume_call \<Rightarrow> bool" where
  "call_ok caps c =
     ((call_api c = ''owm'' \<or> call_api c = ''route'')
      \<and> trip_owm_daily_cap (call_trip c) = fst (caps (trip_id (call_trip c)))
      \<and> trip_route_daily_cap (call_trip c) = snd (caps (trip_id (call_trip c))))"


text \<open>
  Three abbreviations of the proofs: the store after the three \<open>_ensure\<close> calls,
  the per-trip row as the ledger reads it after them, and the condition under which
  \<open>_consume_budget\<close> returns a denial (it checks the per-trip cap only under the
  two API names it knows).
\<close>

definition ensured :: "string \<Rightarrow> day \<Rightarrow> datetime \<Rightarrow> trip_id \<Rightarrow> store \<Rightarrow> store" where
  "ensured a d mb tid st =
     ensure_trip_usage_daily tid d (ensure_usage_row_minute a mb (ensure_usage_row_daily a d st))"

definition usage_row :: "store \<Rightarrow> trip_id \<Rightarrow> day \<Rightarrow> usage" where
  "usage_row st tid d =
     (case trip_api_usage_daily st (tid, d) of
        None \<Rightarrow> \<lparr>owm_calls = 0, route_calls = 0\<rparr> | Some u \<Rightarrow> u)"

definition denies :: "config \<Rightarrow> store \<Rightarrow> trip \<Rightarrow> string \<Rightarrow> day \<Rightarrow> datetime \<Rightarrow> int \<Rightarrow> bool" where
  "denies cfg st t a d mb n =
     (daily_calls st a d + n > daily_limit_of cfg a
      \<or> minute_calls st a mb + n > per_min_limit_of cfg a
      \<or> (a = ''owm'' \<or> a = ''route'') \<and> trip_calls st a (trip_id t) d + n > trip_cap_of t a)"

subsection \<open>Example data\<close>

text \<open>
  The default configuration, an empty database, and the trip of the first scenario: two
  waypoints, a deadline six hours after the clock reading \<open>example_now\<close>
  (2023-11-14 22:13:20 UTC), the balanced policy and the default caps.
\<close>

definition default_config :: config where
  "default_config = \<lparr>OWM_DAILY_LIMIT = 800, ROUTE_DAILY_LIMIT = 400,
                      OWM_PER_MIN_LIMIT = 30, ROUTE_PER_MIN_LIMIT = 20\<rparr>"

definition example_now :: datetime where
  "example_now = 1700000000000000"

definition example_today :: day where
  "example_today = 19675"

definition example_trip :: trip where
  "example_trip =
     \<lparr>trip_id = 1, deadline_at = 1700021600000000,
      waypoints = Some [\<lparr>lat = Some (-2355 / 100), lon = Some (-4663 / 100)\<rparr>,
                        \<lparr>lat = Some (-2290 / 100), lon = Some (-4320 / 100)\<rparr>],
      eta_at = None, route_distance_m = None, route_duration_s = None, route_geojson = None,
      buffer_minutes = None, delay_risk_pct = None, status = None, suggestion = None,
      recommended_depart_at = None, why = None, customer_message = None,
      policy_mode = ''balanced'', trip_owm_daily_cap = 30, trip_route_daily_cap = 15,
      next_calc_at = Some 1700000000000000, last_calc_at = None, calc_state = ''queued''\<rparr>"

definition example_store :: store where
  "example_store =
     \<lparr>trips = [1 \<mapsto> example_trip], trip_updates = [], api_usage_daily = Map.empty,
      api_usage_minute = Map.empty, trip_api_usage_daily = Map.empty\<rparr>"

definition example_env :: consume_env where
  "example_env = \<lparr>clock_now = example_now, clock_today = example_today,
                   audit_insert_fails = False\<rparr>"

definition example_call :: "string \<Rightarrow> string \<Rightarrow> consume_call" where
  "example_call api_name knd =
     \<lparr>call_env = example_env, call_trip = example_trip, call_api = api_name,
      call_kind = knd, call_amount = 1\<rparr>"

definition example_approved :: "session \<times> (exn + bool \<times> reason)" where
  "example_approved =
     consume_budget default_config example_env (open_session example_store) example_trip
       ''route'' ''route_calc'' 1"

definition example_denied :: "session \<times> (exn + bool \<times> reason)" where
  "example_denied =
     consume_budget default_config example_env (open_session example_store) example_trip
       ''route'' ''route_calc'' 16"
definition example_failing_env :: consume_env where
  "example_failing_env = \<lparr>clock_now = example_now, clock_today = example_today,
                           audit_insert_fails = True\<rparr>"

definition example_audit_failure :: "session \<times> (exn + bool \<times> reason)" where
  "example_audit_failure =
     consume_budget default_config example_failing_env (open_session example_store) example_trip
       ''route'' ''route_calc'' 1"
subsection \<open>The forecast client\<close>

text \<open>
  A slot of the provider's forecast list.  A field is \<open>None\<close> when its key is
  absent from the JSON object: \<open>slot_dt\<close> is \<open>item["dt"]\<close> (seconds since the
  epoch), \<open>wind_speed\<close> is \<open>wind.speed\<close>, \<open>rain_3h\<close> and \<open>snow_3h\<close> are
  \<open>rain.3h\<close> and \<open>snow.3h\<close>, \<open>clouds_all\<close> is \<open>clouds.all\<close> and
  \<open>weather_main\<close> is \<open>weather[0].main\<close>.  The numbers are the JSON numbers;
  \<open>float(...)\<close> converts them.
\<close>

record slot =
  slot_dt :: "int option"
  wind_speed :: "rat option"
  rain_3h :: "rat option"
  snow_3h :: "rat option"
  clouds_all :: "rat option"
  weather_main :: "string option"

text \<open>
  What \<open>_forecast\<close> reads from outside: the API key (\<open>None\<close> when the secret
  file is missing or blank) and the answer of the provider to the HTTP request, an
  exception or the list \<open>data.get("list", [])\<close>.
\<close>

record forecast_env =
  owm_api_key :: "string option"
  owm_get :: "rat \<Rightarrow> rat \<Rightarrow> exn + slot list"

text \<open>
  \<^verbatim>\<open>
  best = None; best_diff = None
  for item in data.get("list", []):
    dt = datetime.fromtimestamp(item["dt"], tz=timezone.utc)
    diff = abs((dt - eta_dt).total_seconds())
    if best is None or diff < best_diff:
      best, best_diff = item, diff
  \<close>
\<close>

definition slot_diff :: "datetime \<Rightarrow> int \<Rightarrow> rat" where
  "slot_diff eta_dt t = \<bar>total_seconds (seconds t - eta_dt)\<bar>"

fun nearest :: "datetime \<Rightarrow> slot list \<Rightarrow> (slot \<times> rat) option \<Rightarrow> exn + (slot \<times> rat) option" where
  "nearest eta_dt [] best = Inr best"
| "nearest eta_dt (item # items) best =
     (case slot_dt item of
        None \<Rightarrow> Inl KeyError
      | Some t \<Rightarrow>
          nearest eta_dt items
            (case best of
               None \<Rightarrow> Some (item, slot_diff eta_dt t)
             | Some (b, best_diff) \<Rightarrow>
                 if slot_diff eta_dt t < best_diff then Some (item, slot_diff eta_dt t)
                 else Some (b, best_diff)))"

text \<open>
  \<^verbatim>\<open>
  sev = 0.0
  sev += min(1.0, rain/10.0) * 0.5
  sev += min(1.0, snow/5.0) * 0.6
  sev += min(1.0, wind/15.0) * 0.4
  sev += (clouds/100.0) * 0.1
  sev = max(0.0, min(1.0, sev))
  \<close>
\<close>

definition severity :: "rat \<Rightarrow> rat \<Rightarrow> rat \<Rightarrow> rat \<Rightarrow> rat" where
  "severity rain snow wind clouds =
     (let sev0 = 0;
          sev1 = fl (sev0 + fl (py_min 1 (fl (rain / 10)) * fl (5 / 10)));
          sev2 = fl (sev1 + fl (py_min 1 (fl (snow / 5)) * fl (6 / 10)));
          sev3 = fl (sev2 + fl (py_min 1 (fl (wind / 15)) * fl (4 / 10)));
          sev4 = fl (sev3 + fl (fl (clouds / 100) * fl (1 / 10)))
      in py_max 0 (py_min 1 sev4))"

text \<open>
  \<open>float(best.get("wind", {}).get("speed", 0.0))\<close>: the number of the field as a
  float, 0.0 when the field is missing.
\<close>

definition field_float :: "rat option \<Rightarrow> rat" where
  "field_float v = fl (case v of None \<Rightarrow> 0 | Some x \<Rightarrow> x)"

definition forecast :: "forecast_env \<Rightarrow> rat \<Rightarrow> rat \<Rightarrow> datetime \<Rightarrow> exn + rat \<times> weather" where
  "forecast env la lo eta_dt =
     (case owm_api_key env of
        None \<Rightarrow> Inl RuntimeError
      | Some key \<Rightarrow>
     (case owm_get env la lo of
        Inl e \<Rightarrow> Inl e
      | Inr items \<Rightarrow>
     (case nearest eta_dt items None of
        Inl e \<Rightarrow> Inl e
      | Inr None \<Rightarrow> Inr (0, No_forecast)
      | Inr (Some (best, best_diff)) \<Rightarrow>
          let wind = field_float (wind_speed best);
              rain = field_float (rain_3h best);
              snow = field_float (snow_3h best);
              clouds = field_float (clouds_all best);
              wx = (case weather_main best of None \<Rightarrow> ''Unknown'' | Some m \<Rightarrow> m);
              sev = severity rain snow wind clouds
          in case slot_dt best of
               None \<Rightarrow> Inl KeyError
             | Some t \<Rightarrow> Inr (sev, Forecast_slot sev wx wind rain snow clouds t))))"


text \<open>
  An example answer of the provider: a slot 800 seconds before the ETA of the example
  trip with 5 mm of rain and no other field, and a slot 10000 seconds after it.
\<close>

definition example_slots :: "slot list" where
  "example_slots =
     [\<lparr>slot_dt = Some 1700002800, wind_speed = None, rain_3h = Some 5, snow_3h = None,
        clouds_all = None, weather_main = Some ''Rain''\<rparr>,
      \<lparr>slot_dt = Some 1700013600, wind_speed = Some 12, rain_3h = None, snow_3h = None,
        clouds_all = Some 100, weather_main = Some ''Clouds''\<rparr>]"

definition example_forecast_env :: forecast_env where
  "example_forecast_env = \<lparr>owm_api_key = Some ''key'', owm_get = (\<lambda>la lo. Inr example_slots)\<rparr>"
subsection \<open>The recalculator\<close>

text \<open>
  What one run of \<open>recalc_trip\<close> reads from outside: its clock reading \<open>now\<close>,
  the clock readings and database faults of its two consume calls, the outcome of
  \<open>asyncio.run(_route(coords))\<close> for a list of \<open>(lon, lat)\<close> coordinates (an
  exception, or distance, duration, geometry and provider name), and the environment of
  \<open>_forecast\<close>.
\<close>

record recalc_env =
  recalc_now :: datetime
  route_consume_env :: consume_env
  owm_consume_env :: consume_env
  route_client :: "(rat \<times> rat) list \<Rightarrow> exn + int \<times> int \<times> geometry \<times> string"
  forecast_client :: forecast_env

text \<open>The calls a run makes to the two provider clients, in order.\<close>

datatype client_call =
    Route_call "(rat \<times> rat) list"
  | Forecast_call rat rat datetime

text \<open>The dictionary a run returns.\<close>

datatype recalc_result =
    Not_found
  | Bad_waypoints
  | Budget_denied_route reason
  | Route_failed string
  | Recalc_ok int string bool

text \<open>
  \<open>str(e)\<close>, the message of an exception: the message carried by an HTTP error, and
  the name of the exception for the others.
\<close>

fun exn_text :: "exn \<Rightarrow> string" where
  "exn_text (HTTPError m) = m"
| "exn_text AttributeError = ''AttributeError''"
| "exn_text KeyError = ''KeyError''"
| "exn_text TypeError = ''TypeError''"
| "exn_text RuntimeError = ''OpenWeather key missing''"
| "exn_text DatabaseError = ''DatabaseError''"

text \<open>
  \<open>coords = [[float(p["lon"]), float(p["lat"])] for p in points]\<close> raises at the
  first point without a numeric coordinate.
\<close>

fun coords_of :: "point list \<Rightarrow> exn + (rat \<times> rat) list" where
  "coords_of [] = Inr []"
| "coords_of (p # ps) =
     (case lon p of
        None \<Rightarrow> Inl KeyError
      | Some lo \<Rightarrow>
     (case lat p of
        None \<Rightarrow> Inl KeyError
      | Some la \<Rightarrow>
     (case coords_of ps of
        Inl e \<Rightarrow> Inl e
      | Inr cs \<Rightarrow> Inr ((fl lo, fl la) # cs))))"

definition points_of :: "trip \<Rightarrow> point list" where
  "points_of t = (case waypoints t of None \<Rightarrow> [] | Some ps \<Rightarrow> ps)"

definition need_route :: "trip \<Rightarrow> bool" where
  "need_route t = (if route_duration_s t = None \<or> route_geojson t = None then True else False)"

text \<open>\<open>t.status or yellow\<close>: the stored status, yellow when it is null or empty.\<close>

definition status_or_yellow :: "trip \<Rightarrow> string" where
  "status_or_yellow t = (case status t of None \<Rightarrow> yellow | Some s \<Rightarrow> if s = [] then yellow else s)"

definition customer_message_of :: "string \<Rightarrow> datetime \<Rightarrow> datetime \<Rightarrow> why_text \<Rightarrow> string \<Rightarrow> message_text" where
  "customer_message_of stat eta deadline w sugg = Message stat eta deadline w sugg"

text \<open>
  The run is written in three stages.  A stage either ends the run, with the database
  as the closed session leaves it, the client calls made and the returned dictionary or
  the exception that escapes, or hands over to the next stage.

  The route stage (\<open>if need_route: ...\<close>):
  \<^verbatim>\<open>
  if need_route:
    ok, reason = _consume_budget(db, t, "route", "route_calc", 1)
    if not ok:
      db.execute(update(Trip)...values(calc_state="budget_limited"))
      db.execute(insert(TripUpdate)...kind="budget_denied", payload={"api":"route","reason":reason})
      db.commit()
      next_s = _next_interval_seconds(t.policy_mode, t.status or yellow, True)
      db.execute(update(Trip)...values(next_calc_at=now + timedelta(seconds=next_s), last_calc_at=now))
      db.commit()
      return {"ok": False, "error": "budget_denied_route", "reason": reason}
    try:
      dist_m, dur_s, geom, provider = asyncio.run(_route(coords))
    except Exception as e:
      db.execute(update(Trip)...values(calc_state="error"))
      db.execute(insert(TripUpdate)...kind="recalc_error", payload={"stage":"route","error":str(e)})
      db.commit()
      next_s = _next_interval_seconds(t.policy_mode, t.status or yellow, False)
      db.execute(update(Trip)...values(next_calc_at=now + timedelta(seconds=next_s), last_calc_at=now))
      db.commit()
      return {"ok": False, "error": f"route: {str(e)}"}
  \<close>
\<close>

type_synonym run_end = "store \<times> client_call list \<times> (exn + recalc_result)"

definition reschedule :: "trip_id \<Rightarrow> datetime \<Rightarrow> int \<Rightarrow> store \<Rightarrow> store" where
  "reschedule tid now next_s =
     update_trip tid (\<lambda>r. r\<lparr>next_calc_at := Some (now + seconds next_s), last_calc_at := Some now\<rparr>)"

definition set_calc_state :: "trip_id \<Rightarrow> string \<Rightarrow> store \<Rightarrow> store" where
  "set_calc_state tid cs = update_trip tid (\<lambda>r. r\<lparr>calc_state := cs\<rparr>)"

definition route_stage ::
  "config \<Rightarrow> recalc_env \<Rightarrow> session \<Rightarrow> trip \<Rightarrow> (rat \<times> rat) list
     \<Rightarrow> run_end + session \<times> client_call list \<times> int option \<times> int option \<times> geometry option \<times> string" where
  "route_stage cfg env db t coords =
     (let tid = trip_id t; now = recalc_now env in
      if need_route t then
        (case consume_budget cfg (route_consume_env env) db t ''route'' ''route_calc'' 1 of
           (db1, Inl e) \<Rightarrow> Inl (close_session db1, [], Inl e)
         | (db1, Inr (ok, rsn)) \<Rightarrow>
             if \<not> ok then
               let db2 = commit (execute (insert_trip_update tid ''budget_denied''
                                   (Denied_payload ''route'' rsn))
                           (execute (set_calc_state tid ''budget_limited'') db1));
                   next_s = next_interval_seconds (policy_mode t) (status_or_yellow t) True;
                   db3 = commit (execute (reschedule tid now next_s) db2)
               in Inl (close_session db3, [], Inr (Budget_denied_route rsn))
             else
               (case route_client env coords of
                  Inl e \<Rightarrow>
                    let db2 = commit (execute (insert_trip_update tid ''recalc_error''
                                        (Error_payload ''route'' (exn_text e)))
                                (execute (set_calc_state tid ''error'') db1));
                        next_s = next_interval_seconds (policy_mode t) (status_or_yellow t) False;
                        db3 = commit (execute (reschedule tid now next_s) db2)
                    in Inl (close_session db3, [Route_call coords], Inr (Route_failed (exn_text e)))
                | Inr (dist_m, dur_s, geom, provider) \<Rightarrow>
                    Inr (db1, [Route_call coords], Some dist_m, Some dur_s, Some geom, provider)))
      else Inr (db, [], route_distance_m t, route_duration_s t, route_geojson t, ''cached''))"

text \<open>
  The weather stage:
  \<^verbatim>\<open>
  ok, reason = _consume_budget(db, t, "owm", "weather_forecast", 1)
  if not ok:
    sev, wx = 0.0, {"severity":0.0, "budget_denied": True, "reason": reason}
    db.execute(insert(TripUpdate)...kind="budget_denied", payload={"api":"owm","reason":reason})
    db.commit()
    budget_limited = True
  else:
    try:
      sev, wx = asyncio.run(_forecast(dest_lat, dest_lon, eta))
      budget_limited = False
    except Exception as e:
      sev, wx = 0.0, {"severity":0.0, "error": str(e)}
      budget_limited = False
  \<close>
\<close>

definition weather_stage ::
  "config \<Rightarrow> recalc_env \<Rightarrow> session \<Rightarrow> trip \<Rightarrow> rat \<Rightarrow> rat \<Rightarrow> datetime
     \<Rightarrow> run_end + session \<times> client_call list \<times> rat \<times> weather \<times> bool" where
  "weather_stage cfg env db t dest_lat dest_lon eta =
     (case consume_budget cfg (owm_consume_env env) db t ''owm'' ''weather_forecast'' 1 of
        (db1, Inl e) \<Rightarrow> Inl (close_session db1, [], Inl e)
      | (db1, Inr (ok, rsn)) \<Rightarrow>
          if \<not> ok then
            Inr (commit (execute (insert_trip_update (trip_id t) ''budget_denied''
                           (Denied_payload ''owm'' rsn)) db1),
                 [], 0, Weather_denied rsn, True)
          else
            (case forecast (forecast_client env) dest_lat dest_lon eta of
               Inl e \<Rightarrow> Inr (db1, [Forecast_call dest_lat dest_lon eta], 0,
                              Weather_error (exn_text e), False)
             | Inr (sev, wx) \<Rightarrow> Inr (db1, [Forecast_call dest_lat dest_lon eta], sev, wx, False)))"

text \<open>
  The last stage: the risk model, the next interval, and the update of the trip row
  with its \<open>recalc_done\<close> event, committed in a session of its own (\<open>db2\<close>).
\<close>

definition finish_stage ::
  "recalc_env \<Rightarrow> session \<Rightarrow> trip \<Rightarrow> int option \<Rightarrow> int \<Rightarrow> geometry option \<Rightarrow> string
     \<Rightarrow> datetime \<Rightarrow> rat \<Rightarrow> weather \<Rightarrow> bool \<Rightarrow> store \<times> recalc_result" where
  "finish_stage env db t dist_m dur_s geom provider eta sev wx budget_limited =
     (let now = recalc_now env; tid = trip_id t; deadline = deadline_at t in
      case risk deadline eta sev of
        (risk_pct, stat, buf, w, sugg) \<Rightarrow>
          let rec_depart = recommend_depart now stat buf;
              cust_msg = customer_message_of stat eta deadline w sugg;
              pl = Done_payload dist_m (Some dur_s) geom provider wx buf now w;
              next_s = next_interval_seconds (policy_mode t) stat budget_limited;
              next_at = now + seconds next_s;
              db2 = open_session (close_session db);
              db2 = execute (update_trip tid (\<lambda>r. r\<lparr>
                      eta_at := Some eta,
                      route_distance_m := dist_m,
                      route_duration_s := Some dur_s,
                      route_geojson := geom,
                      buffer_minutes := Some buf,
                      delay_risk_pct := Some risk_pct,
                      status := Some stat,
                      suggestion := Some sugg,
                      recommended_depart_at := Some rec_depart,
                      why := Some w,
                      customer_message := Some cust_msg,
                      last_calc_at := Some now,
                      next_calc_at := Some next_at,
                      calc_state := (if budget_limited then ''budget_limited'' else ''done'')\<rparr>)) db2;
              db2 = commit (execute (insert_trip_update tid ''recalc_done'' pl) db2)
          in (close_session db2, Recalc_ok risk_pct stat budget_limited))"

text \<open>
  \<^verbatim>\<open>
  def recalc_trip(trip_id):
    tid = uuid.UUID(trip_id)
    now = datetime.now(timezone.utc)
    with Session() as db:
      t = db.scalar(select(Trip).where(Trip.id == tid))
      if not t: return {"ok": False, "error":"not-found"}
      db.execute(update(Trip).where(Trip.id==tid).values(calc_state="running"))
      db.execute(insert(TripUpdate).values(trip_id=tid, kind="recalc_running", ...))
      db.commit()
      points = t.waypoints.get("points") or []
      if len(points) < 2:
        db.execute(update(Trip).where(Trip.id==tid).values(calc_state="error"))
        db.execute(insert(TripUpdate)...kind="recalc_error",
                   payload={"stage":"validate","error":"need >=2 points"})
        db.commit()
        return {"ok": False, "error":"bad-waypoints"}
      deadline = t.deadline_at
      need_route = True if (t.route_duration_s is None or t.route_geojson is None) else False
      coords = [[float(p["lon"]), float(p["lat"])] for p in points]
      dest_lat, dest_lon = float(points[-1]["lat"]), float(points[-1]["lon"])
      ... route stage ...
      eta = now + timedelta(seconds=int(dur_s))
      ... weather stage ... last stage ...
    return {"ok": True, "risk_pct": risk_pct, "status": status, "budget_limited": budget_limited}
  \<close>
  The argument is the parsed UUID, and the destination is read from the last pair of
  \<open>coords\<close>, which holds the same two floats as \<open>points[-1]\<close>.  The object \<open>t\<close> is refreshed from the database
  after every commit; the run itself changes no column that it reads, so the model reads
  the row loaded first.
\<close>

definition recalc_trip :: "config \<Rightarrow> recalc_env \<Rightarrow> store \<Rightarrow> trip_id \<Rightarrow> run_end" where
  "recalc_trip cfg env st tid =
     (let now = recalc_now env; db = open_session st in
      case trips (pending db) tid of
        None \<Rightarrow> (close_session db, [], Inr Not_found)
      | Some t \<Rightarrow>
          let db = commit (execute (insert_trip_update tid ''recalc_running'' (Running_payload now))
                     (execute (set_calc_state tid ''running'') db));
              points = points_of t
          in if length points < 2 then
               let db = commit (execute (insert_trip_update tid ''recalc_error''
                                  (Error_payload ''validate'' ''need >=2 points''))
                          (execute (set_calc_state tid ''error'') db))
               in (close_session db, [], Inr Bad_waypoints)
             else
               (case coords_of points of
                  Inl e \<Rightarrow> (close_session db, [], Inl e)
                | Inr coords \<Rightarrow>
               (case rev coords of
                  [] \<Rightarrow> (close_session db, [], Inl KeyError)
                | (dest_lon, dest_lat) # others \<Rightarrow>
               (case route_stage cfg env db t coords of
                  Inl ended \<Rightarrow> ended
                | Inr (db, calls, dist_m, dur_opt, geom, provider) \<Rightarrow>
               (case dur_opt of
                  None \<Rightarrow> (close_session db, calls, Inl TypeError)
                | Some dur_s \<Rightarrow>
                    let eta = now + seconds dur_s in
                    (case weather_stage cfg env db t dest_lat dest_lon eta of
                       Inl (st', calls', r) \<Rightarrow> (st', calls @ calls', r)
                     | Inr (db, calls', sev, wx, budget_limited) \<Rightarrow>
                         (case finish_stage env db t dist_m dur_s geom provider eta sev wx
                                 budget_limited of
                            (st', r) \<Rightarrow> (st', calls @ calls', Inr r))))))))"


definition example_recalc_env :: recalc_env where
  "example_recalc_env =
     \<lparr>recalc_now = example_now, route_consume_env = example_env, owm_consume_env = example_env,
      route_client = (\<lambda>coords. Inr (42000, 3600, coords, ''osrm'')),
      forecast_client = example_forecast_env\<rparr>"
text \<open>
  The fourth scenario: the per-minute counter of the route API is at its limit in the
  minute of the run.
\<close>

definition example_capped_store :: store where
  "example_capped_store =
     example_store\<lparr>api_usage_minute := [(''route'', minute_bucket example_now) \<mapsto> 20]\<rparr>"
text \<open>The run up to the route stage, for a trip that passes the validation.\<close>

definition started :: "store \<Rightarrow> trip_id \<Rightarrow> trip \<Rightarrow> datetime \<Rightarrow> store" where
  "started st tid t now =
     st\<lparr>trips := (trips st)(tid \<mapsto> t\<lparr>calc_state := ''running''\<rparr>),
        trip_updates := trip_updates st @
          [\<lparr>update_trip_id = tid, kind = ''recalc_running'', payload = Running_payload now\<rparr>]\<rparr>"
text \<open>The counters of the route API have in \<open>st'\<close> the values they have in \<open>st\<close>.\<close>

definition route_untouched :: "store \<Rightarrow> store \<Rightarrow> bool" where
  "route_untouched st st' =
     (\<forall>d mb tid. daily_calls st' ''route'' d = daily_calls st ''route'' d
        \<and> minute_calls st' ''route'' mb = minute_calls st ''route'' mb
        \<and> trip_calls st' ''route'' tid d = trip_calls st ''route'' tid d)"

text \<open>The weather and last stages together, as the run composes them.\<close>

definition after_route ::
  "config \<Rightarrow> recalc_env \<Rightarrow> session \<Rightarrow> trip \<Rightarrow> client_call list \<Rightarrow> int option \<Rightarrow> int
     \<Rightarrow> geometry option \<Rightarrow> string \<Rightarrow> rat \<Rightarrow> rat \<Rightarrow> run_end" where
  "after_route cfg env db t calls dist_m dur_s geom provider dest_lat dest_lon =
     (case weather_stage cfg env db t dest_lat dest_lon (recalc_now env + seconds dur_s) of
        Inl (st', calls', r) \<Rightarrow> (st', calls @ calls', r)
      | Inr (db, calls', sev, wx, budget_limited) \<Rightarrow>
          (case finish_stage env db t dist_m dur_s geom provider
                  (recalc_now env + seconds dur_s) sev wx budget_limited of
             (st', r) \<Rightarrow> (st', calls @ calls', Inr r)))"

section \<open>Properties\<close>

lemma glyphs_distinct:
  "green \<noteq> yellow" "green \<noteq> red" "yellow \<noteq> red"
  by (simp_all add: green_def yellow_def red_def)

subsection \<open>Floating point\<close>

declare bitlen.simps [simp del]

lemma bitlen_bounds:
  "0 < n \<Longrightarrow> 2 ^ (bitlen n - 1) \<le> n \<and> n < 2 ^ bitlen n"
proof (induction n rule: bitlen.induct)
  case (1 n)
  show ?case
  proof (cases "n div 2 = 0")
    case True
    with "1.prems" have "n = 1" by (simp add: div_eq_0_iff) 
    then show ?thesis by (simp add: bitlen.simps)
  next
    case False
    then have "0 < n div 2" by simp
    with "1.IH" "1.prems" have ih: "2 ^ (bitlen (n div 2) - 1) \<le> n div 2" "n div 2 < 2 ^ bitlen (n div 2)"
      by simp_all
    have b: "bitlen n = Suc (bitlen (n div 2))" using "1.prems" by (subst bitlen.simps) simp
    have pos: "bitlen (n div 2) > 0" using False by (subst bitlen.simps) simp
    then obtain m where m: "bitlen (n div 2) = Suc m" by (cases "bitlen (n div 2)") auto
    from ih show ?thesis unfolding b m by simp linarith
  qed
qed

lemma two_powi_diff: "(2::rat) powi (int a - int b) = 2 ^ a / 2 ^ b"
  by (simp add: power_int_diff)

lemma ilog2_bounds:
  assumes "0 < x"
  shows "2 powi (ilog2 x) \<le> x \<and> x < 2 powi (ilog2 x + 1)"
proof -
  obtain p q where pq: "quotient_of x = (p, q)" by (cases "quotient_of x")
  then have q: "0 < q" and x: "x = of_int p / of_int q"
    by (simp_all add: quotient_of_denom_pos quotient_of_div)
  with assms have p: "0 < p" by (simp add: zero_less_divide_iff)
  define bp bq where "bp = bitlen (nat p)" and "bq = bitlen (nat q)"
  define k where "k = int bp - int bq"
  define P Q :: rat where "P = of_int p" and "Q = of_int q"
  define A B :: rat where "A = 2 ^ (bp - 1)" and "B = 2 ^ (bq - 1)"
  have bp0: "0 < bp" using p unfolding bp_def by (subst bitlen.simps) simp
  have bq0: "0 < bq" using q unfolding bq_def by (subst bitlen.simps) simp
  obtain a where a: "bp = Suc a" using bp0 by (cases bp) auto
  obtain b where b: "bq = Suc b" using bq0 by (cases bq) auto
  from bitlen_bounds [of "nat p"] p have "int (2 ^ (bp - 1)) \<le> p" "p < int (2 ^ bp)"
    by (simp_all add: bp_def nat_less_iff le_nat_iff)
  then have "(of_int (int (2 ^ (bp - 1))) :: rat) \<le> of_int p" "(of_int p :: rat) < of_int (int (2 ^ bp))"
    unfolding of_int_le_iff of_int_less_iff by simp_all
  then have P: "A \<le> P" "P < 2 * A"
    by (simp_all add: A_def P_def a)
  from bitlen_bounds [of "nat q"] q have "int (2 ^ (bq - 1)) \<le> q" "q < int (2 ^ bq)"
    by (simp_all add: bq_def nat_less_iff le_nat_iff)
  then have "(of_int (int (2 ^ (bq - 1))) :: rat) \<le> of_int q" "(of_int q :: rat) < of_int (int (2 ^ bq))"
    unfolding of_int_le_iff of_int_less_iff by simp_all
  then have Q: "B \<le> Q" "Q < 2 * B"
    by (simp_all add: B_def Q_def b)
  have A0: "0 < A" and B0: "0 < B" by (simp_all add: A_def B_def)
  have Q0: "0 < Q" using q by (simp add: Q_def)
  have k: "2 powi k = A / B"
    unfolding k_def two_powi_diff A_def B_def a b by simp
  have k1: "2 powi (k + 1) = 2 * A / B"
    using k by (simp add: power_int_add)
  have km: "2 powi (k - 1) = A / (2 * B)"
    using k by (simp add: power_int_diff)
  have xx: "x = P / Q" by (simp add: x P_def Q_def)
  have up: "x < 2 * A / B"
  proof -
    have "P / Q < 2 * A / Q" using P Q0 by (simp add: divide_strict_right_mono)
    also have "\<dots> \<le> 2 * A / B" using Q B0 A0 by (simp add: frac_le)
    finally show ?thesis by (simp add: xx)
  qed
  have lo: "A / (2 * B) \<le> x"
  proof -
    have "A / (2 * B) \<le> A / Q" using Q Q0 A0 by (simp add: frac_le)
    also have "\<dots> \<le> P / Q" using P Q0 by (simp add: divide_right_mono)
    finally show ?thesis by (simp add: xx)
  qed
  have il: "ilog2 x = (if 2 powi k \<le> x then k else k - 1)"
    by (simp add: ilog2_def pq bp_def bq_def k_def Let_def)
  show ?thesis
  proof (cases "2 powi k \<le> x")
    case True
    then show ?thesis using up by (simp add: il k1)
  next
    case False
    then show ?thesis using lo by (simp add: il km)
  qed
qed

lemma two_powi_less_cancel: "(2::rat) powi a < 2 powi b \<Longrightarrow> a < b"
proof (rule ccontr)
  assume l: "(2::rat) powi a < 2 powi b" and "\<not> a < b"
  then have "b \<le> a" by simp
  then have "(2::rat) powi b \<le> 2 powi a" by (rule power_int_increasing) simp
  with l show False by simp
qed

lemma ilog2_unique:
  assumes "2 powi e \<le> x" and "x < 2 powi (e + 1)"
  shows "ilog2 x = e"
proof -
  have "0 < (2::rat) powi e" by simp
  with assms(1) have "0 < x" by linarith
  from ilog2_bounds [OF this] assms
  have "2 powi e < (2::rat) powi (ilog2 x + 1)" "2 powi (ilog2 x) < (2::rat) powi (e + 1)"
    by linarith+
  then have "e < ilog2 x + 1" "ilog2 x < e + 1"
    by (auto dest: two_powi_less_cancel)
  then show ?thesis by simp
qed

text \<open>
  Evaluating \<open>fl\<close> and \<open>rhe\<close> at a given number: the exponent, or the integer
  nearest to the argument, is supplied and checked by arithmetic on numerals.
\<close>

lemma fl_eqI:
  assumes "2 powi (e + 52) \<le> \<bar>x\<bar>" and "\<bar>x\<bar> < 2 powi (e + 53)"
  shows "fl x = of_int (rhe (x / 2 powi e)) * 2 powi e"
proof -
  have "ilog2 \<bar>x\<bar> = e + 52" using assms by (intro ilog2_unique) (simp_all add: add.commute add.left_commute)
  moreover have "x \<noteq> 0"
  proof
    assume "x = 0"
    with assms(1) have "(2::rat) powi (e + 52) \<le> 0" by simp
    moreover have "0 < (2::rat) powi (e + 52)" by simp
    ultimately show False by linarith
  qed
  ultimately show ?thesis by (simp add: fl_def Let_def)
qed

lemma rhe_near:
  assumes "of_int n - 1/2 < x" and "x < of_int n + 1/2"
  shows "rhe x = n"
proof -
  have "\<lfloor>x\<rfloor> = n \<or> \<lfloor>x\<rfloor> = n - 1" using assms by linarith
  then show ?thesis
  proof
    assume f: "\<lfloor>x\<rfloor> = n"
    then show ?thesis using assms by (simp add: rhe_def Let_def)
  next
    assume f: "\<lfloor>x\<rfloor> = n - 1"
    then show ?thesis using assms by (simp add: rhe_def Let_def)
  qed
qed

lemma rhe_tie_even:
  assumes "x = of_int n + 1/2 \<or> x = of_int n - 1/2" and "even n"
  shows "rhe x = n"
proof -
  from assms(1) show ?thesis
  proof
    assume x: "x = of_int n + 1/2"
    then have "\<lfloor>x\<rfloor> = n" by linarith
    then show ?thesis using x assms(2) by (simp add: rhe_def Let_def)
  next
    assume x: "x = of_int n - 1/2"
    then have "\<lfloor>x\<rfloor> = n - 1" by linarith
    then show ?thesis using x assms(2) by (simp add: rhe_def Let_def)
  qed
qed

lemma rhe_of_int [simp]: "rhe (of_int n) = n"
  by (rule rhe_near) simp_all

subsection \<open>Recalculation interval for a mode outside the table\<close>

text \<open>
  Claim C9.  For every policy mode that is neither \<open>conservative\<close> nor
  \<open>aggressive\<close>, unknown and malformed modes included, and \<open>budget_limited\<close> false,
  \<open>next_interval_seconds\<close> returns the balanced values: 2400 for green, 900 for
  yellow, 300 for red.  The function is total (it has no failing branch), and the three
  values are the only ones such a mode can give, whatever the status string.
\<close>

theorem next_interval_unknown_mode_balanced:
  assumes "mode \<noteq> ''conservative''" and "mode \<noteq> ''aggressive''"
  shows "next_interval_seconds mode green False = 2400
       \<and> next_interval_seconds mode yellow False = 900
       \<and> next_interval_seconds mode red False = 300
       \<and> next_interval_seconds mode s False = next_interval_seconds ''balanced'' s False
       \<and> next_interval_seconds mode s False \<in> {2400, 900, 300}"
  using assms glyphs_distinct by (simp add: next_interval_seconds_def)

theorem next_interval_unknown_mode_balanced_witness:
  "''turbo'' \<noteq> ''conservative'' \<and> ''turbo'' \<noteq> ''aggressive''
   \<and> next_interval_seconds ''turbo'' green False = 2400
   \<and> next_interval_seconds ''turbo'' yellow False = 900
   \<and> next_interval_seconds ''turbo'' red False = 300
   \<and> next_interval_seconds ''turbo'' ''x'' False = next_interval_seconds ''balanced'' ''x'' False
   \<and> next_interval_seconds ''turbo'' ''x'' False \<in> {2400, 900, 300}"
proof -
  have a: "''turbo'' \<noteq> ''conservative''" and b: "''turbo'' \<noteq> ''aggressive''"
    by simp_all
  from a b next_interval_unknown_mode_balanced [OF a b, of "''x''"]
  show ?thesis by blast
qed

subsection \<open>Recommended departure\<close>



subsection \<open>The quota ledger\<close>

lemmas session_defs = execute_def commit_def open_session_def close_session_def
lemmas counter_defs = daily_calls_def minute_calls_def trip_calls_def
lemmas ensure_defs = ensure_usage_row_daily_def ensure_usage_row_minute_def ensure_trip_usage_daily_def

lemma ensure_daily_calls [simp]:
  "daily_calls (ensure_usage_row_daily a d st) a' d' = daily_calls st a' d'"
  "minute_calls (ensure_usage_row_daily a d st) a' mb' = minute_calls st a' mb'"
  "trip_calls (ensure_usage_row_daily a d st) a' tid' d' = trip_calls st a' tid' d'"
  by (auto simp: counter_defs ensure_defs split: option.splits)

lemma ensure_minute_calls [simp]:
  "daily_calls (ensure_usage_row_minute a mb st) a' d' = daily_calls st a' d'"
  "minute_calls (ensure_usage_row_minute a mb st) a' mb' = minute_calls st a' mb'"
  "trip_calls (ensure_usage_row_minute a mb st) a' tid' d' = trip_calls st a' tid' d'"
  by (auto simp: counter_defs ensure_defs split: option.splits)

lemma ensure_trip_calls [simp]:
  "daily_calls (ensure_trip_usage_daily tid d st) a' d' = daily_calls st a' d'"
  "minute_calls (ensure_trip_usage_daily tid d st) a' mb' = minute_calls st a' mb'"
  "trip_calls (ensure_trip_usage_daily tid d st) a' tid' d' = trip_calls st a' tid' d'"
  by (auto simp: counter_defs ensure_defs split: option.splits)

lemma usage_row_calls:
  "owm_calls (usage_row st tid d) = trip_calls st ''owm'' tid d"
  "route_calls (usage_row st tid d) = trip_calls st ''route'' tid d"
  by (simp_all add: usage_row_def trip_calls_def split: option.splits)

lemma ensured_rows:
  "api_usage_daily (ensured a d mb tid st) (a, d) = Some (daily_calls st a d)"
  "api_usage_minute (ensured a d mb tid st) (a, mb) = Some (minute_calls st a mb)"
  "trip_api_usage_daily (ensured a d mb tid st) (tid, d) = Some (usage_row st tid d)"
  by (auto simp: ensured_def counter_defs ensure_defs usage_row_def split: option.splits)

lemma add_calls_counters [simp]:
  "daily_calls (add_calls a d mb tid gd gm tu n st) a' d' =
     (if a' = a \<and> d' = d then gd + n else daily_calls st a' d')"
  "minute_calls (add_calls a d mb tid gd gm tu n st) a' mb' =
     (if a' = a \<and> mb' = mb then gm + n else minute_calls st a' mb')"
  "trip_calls (add_calls a d mb tid gd gm tu n st) a' tid' d' =
     (if tid' = tid \<and> d' = d
      then (if a' = ''owm'' then (if a = ''owm'' then owm_calls tu + n else owm_calls tu)
            else (if a = ''owm'' then route_calls tu else route_calls tu + n))
      else trip_calls st a' tid' d')"
  by (auto simp: counter_defs add_calls_def)

lemma insert_trip_update_counters [simp]:
  "daily_calls (insert_trip_update tid k p st) a d = daily_calls st a d"
  "minute_calls (insert_trip_update tid k p st) a mb = minute_calls st a mb"
  "trip_calls (insert_trip_update tid k p st) a tid' d = trip_calls st a tid' d"
  by (simp_all add: counter_defs insert_trip_update_def)

lemma ensured_counters [simp]:
  "daily_calls (ensured a d mb tid st) a' d' = daily_calls st a' d'"
  "minute_calls (ensured a d mb tid st) a' mb' = minute_calls st a' mb'"
  "trip_calls (ensured a d mb tid st) a' tid' d' = trip_calls st a' tid' d'"
  by (simp_all add: ensured_def)

lemma consume_budget_unfold:
  "consume_budget cfg env db t a k n =
     (let d = clock_today env; mb = minute_bucket (clock_now env);
          st1 = ensured a d mb (trip_id t) (pending db);
          db1 = db\<lparr>pending := st1, committed := st1\<rparr>;
          gd = daily_calls (pending db) a d;
          gm = minute_calls (pending db) a mb;
          tu = usage_row (pending db) (trip_id t) d
      in if gd + n > daily_limit_of cfg a
           then (db1, Inr (False, Global_daily_limit a gd (daily_limit_of cfg a)))
         else if gm + n > per_min_limit_of cfg a
           then (db1, Inr (False, Per_min_limit a gm (per_min_limit_of cfg a) mb))
         else if (a = ''owm'' \<or> a = ''route'') \<and> trip_calls (pending db) a (trip_id t) d + n > trip_cap_of t a
           then (db1, Inr (False, Trip_daily_cap a (trip_calls (pending db) a (trip_id t) d) (trip_cap_of t a)))
         else let st2 = add_calls a d mb (trip_id t) gd gm tu n st1;
                  db2 = db\<lparr>pending := st2, committed := st2\<rparr>
              in if audit_insert_fails env then (db2, Inl DatabaseError)
                 else let st3 = insert_trip_update (trip_id t) ''budget_consume'' (Consume_payload a k n) st2
                      in (db\<lparr>pending := st3, committed := st3\<rparr>, Inr (True, Ok)))"
  unfolding consume_budget_def Let_def
  by (auto simp add: session_defs ensured_rows ensured_def[symmetric] daily_limit_of_def
        per_min_limit_of_def trip_cap_of_def usage_row_calls)

lemma denies_iff_exceeds:
  "a = ''owm'' \<or> a = ''route'' \<Longrightarrow> denies cfg st t a d mb n = exceeds_a_cap cfg st t a d mb n"
  by (auto simp: denies_def exceeds_a_cap_def)

lemma consume_result_denied:
  "(\<exists>r. snd (consume_budget cfg env db t a k n) = Inr (False, r))
     \<longleftrightarrow> denies cfg (pending db) t a (clock_today env) (minute_bucket (clock_now env)) n"
  by (auto simp: consume_budget_unfold Let_def denies_def usage_row_calls)

lemma consume_result_approved:
  "(\<exists>r. snd (consume_budget cfg env db t a k n) = Inr (True, r))
     \<longleftrightarrow> \<not> denies cfg (pending db) t a (clock_today env) (minute_bucket (clock_now env)) n
          \<and> \<not> audit_insert_fails env"
  by (auto simp: consume_budget_unfold Let_def denies_def usage_row_calls)

lemma consume_result_raised:
  "(\<exists>e. snd (consume_budget cfg env db t a k n) = Inl e)
     \<longleftrightarrow> \<not> denies cfg (pending db) t a (clock_today env) (minute_bucket (clock_now env)) n
          \<and> audit_insert_fails env"
  by (auto simp: consume_budget_unfold Let_def denies_def usage_row_calls)

lemma consume_committed:
  "committed (fst (consume_budget cfg env db t a k n)) = pending (fst (consume_budget cfg env db t a k n))"
  by (simp add: consume_budget_unfold Let_def)

lemma consume_counters_denied:
  assumes "denies cfg (pending db) t a (clock_today env) (minute_bucket (clock_now env)) n"
  shows "daily_calls (pending (fst (consume_budget cfg env db t a k n))) a' d' = daily_calls (pending db) a' d'"
    and "minute_calls (pending (fst (consume_budget cfg env db t a k n))) a' mb' = minute_calls (pending db) a' mb'"
    and "trip_calls (pending (fst (consume_budget cfg env db t a k n))) a' tid' d' = trip_calls (pending db) a' tid' d'"
  using assms by (auto simp: consume_budget_unfold Let_def denies_def usage_row_calls)

lemma consume_counters_consumed:
  assumes "\<not> denies cfg (pending db) t a (clock_today env) (minute_bucket (clock_now env)) n"
  shows "daily_calls (pending (fst (consume_budget cfg env db t a k n))) a' d' =
           (if a' = a \<and> d' = clock_today env then daily_calls (pending db) a' d' + n
            else daily_calls (pending db) a' d')"
    and "minute_calls (pending (fst (consume_budget cfg env db t a k n))) a' mb' =
           (if a' = a \<and> mb' = minute_bucket (clock_now env) then minute_calls (pending db) a' mb' + n
            else minute_calls (pending db) a' mb')"
    and "trip_calls (pending (fst (consume_budget cfg env db t a k n))) a' tid' d' =
           (if tid' = trip_id t \<and> d' = clock_today env \<and> ((a' = ''owm'') = (a = ''owm''))
            then trip_calls (pending db) a' tid' d' + n
            else trip_calls (pending db) a' tid' d')"
proof -
  have r: "\<And>st x tid d. x \<noteq> ''owm'' \<Longrightarrow> trip_calls st x tid d = trip_calls st ''route'' tid d"
    by (simp add: trip_calls_def split: option.splits)
  show "daily_calls (pending (fst (consume_budget cfg env db t a k n))) a' d' =
           (if a' = a \<and> d' = clock_today env then daily_calls (pending db) a' d' + n
            else daily_calls (pending db) a' d')"
    using assms by (auto simp: consume_budget_unfold Let_def denies_def)
  show "minute_calls (pending (fst (consume_budget cfg env db t a k n))) a' mb' =
           (if a' = a \<and> mb' = minute_bucket (clock_now env) then minute_calls (pending db) a' mb' + n
            else minute_calls (pending db) a' mb')"
    using assms by (auto simp: consume_budget_unfold Let_def denies_def)
  show "trip_calls (pending (fst (consume_budget cfg env db t a k n))) a' tid' d' =
           (if tid' = trip_id t \<and> d' = clock_today env \<and> ((a' = ''owm'') = (a = ''owm''))
            then trip_calls (pending db) a' tid' d' + n
            else trip_calls (pending db) a' tid' d')"
    using assms r[of a'] by (auto simp: consume_budget_unfold Let_def denies_def usage_row_calls)
qed

lemma consume_within_caps:
  assumes inv: "within_caps cfg caps (pending db)" and ok: "call_ok caps c"
  shows "within_caps cfg caps
           (pending (fst (consume_budget cfg (call_env c) db (call_trip c) (call_api c)
              (call_kind c) (call_amount c))))"
proof (cases "denies cfg (pending db) (call_trip c) (call_api c) (clock_today (call_env c))
                (minute_bucket (clock_now (call_env c))) (call_amount c)")
  case True
  then show ?thesis
    using inv by (simp add: within_caps_def consume_counters_denied)
next
  case False
  from ok have api: "call_api c = ''owm'' \<or> call_api c = ''route''"
    and co: "trip_owm_daily_cap (call_trip c) = fst (caps (trip_id (call_trip c)))"
    and cr: "trip_route_daily_cap (call_trip c) = snd (caps (trip_id (call_trip c)))"
    by (simp_all add: call_ok_def)
  from False api have
    b1: "daily_calls (pending db) (call_api c) (clock_today (call_env c)) + call_amount c
           \<le> daily_limit_of cfg (call_api c)"
    and b2: "minute_calls (pending db) (call_api c) (minute_bucket (clock_now (call_env c))) + call_amount c
           \<le> per_min_limit_of cfg (call_api c)"
    and b3: "trip_calls (pending db) (call_api c) (trip_id (call_trip c)) (clock_today (call_env c)) + call_amount c
           \<le> trip_cap_of (call_trip c) (call_api c)"
    by (auto simp: denies_def)
  from api show ?thesis
  proof
    assume a: "call_api c = ''owm''"
    show ?thesis
      using inv b1 b2 b3 co False
      by (simp add: within_caps_def consume_counters_consumed a daily_limit_of_def
            per_min_limit_of_def trip_cap_of_def)
  next
    assume a: "call_api c = ''route''"
    show ?thesis
      using inv b1 b2 b3 cr False
      by (simp add: within_caps_def consume_counters_consumed a daily_limit_of_def
            per_min_limit_of_def trip_cap_of_def)
  qed
qed

lemma consume_all_within_caps:
  "within_caps cfg caps (pending db) \<Longrightarrow> \<forall>c\<in>set cs. call_ok caps c
     \<Longrightarrow> within_caps cfg caps (pending (consume_all cfg db cs))"
proof (induction cs arbitrary: db)
  case Nil
  then show ?case by simp
next
  case (Cons c cs)
  then show ?case by (simp add: consume_within_caps)
qed

lemma consume_all_committed:
  "cs \<noteq> [] \<Longrightarrow> committed (consume_all cfg db cs) = pending (consume_all cfg db cs)"
proof (induction cs arbitrary: db)
  case Nil
  then show ?case by simp
next
  case (Cons c cs)
  show ?case
  proof (cases cs)
    case Nil
    then show ?thesis by (simp add: consume_committed)
  next
    case (Cons c' cs')
    with Cons.IH show ?thesis by simp
  qed
qed

text \<open>
  Claim C1.  For every call \<open>consume(trip, api_name, kind, amount)\<close> with
  \<open>api_name\<close> one of \<open>owm\<close> and \<open>route\<close>: the call is denied exactly when one
  of the three caps would be exceeded, and then every counter (a missing row counting as
  0) has the value it had before the call; if the call is approved, exactly \<open>amount\<close>
  is added to the global-day, the global-minute and the per-trip-day counter of
  \<open>api_name\<close> (the per-trip column matching \<open>api_name\<close>) and no other counter
  changes; and a database whose counters are within their caps stays within them after
  any sequence of consume calls that use the caps of the trip rows.
\<close>

theorem consume_budget_caps:
  assumes run: "consume_budget cfg env db t a k n = (db', res)"
      and api: "a = ''owm'' \<or> a = ''route''"
  shows "((\<exists>r. res = Inr (False, r))
            \<longleftrightarrow> exceeds_a_cap cfg (pending db) t a (clock_today env) (minute_bucket (clock_now env)) n)
       \<and> ((\<exists>r. res = Inr (False, r)) \<longrightarrow>
            (\<forall>x d' mb' tid'.
                daily_calls (pending db') x d' = daily_calls (pending db) x d'
              \<and> minute_calls (pending db') x mb' = minute_calls (pending db) x mb'
              \<and> trip_calls (pending db') x tid' d' = trip_calls (pending db) x tid' d')
            \<and> committed db' = pending db')
       \<and> ((\<exists>r. res = Inr (True, r)) \<longrightarrow>
            daily_calls (pending db') a (clock_today env)
              = daily_calls (pending db) a (clock_today env) + n
          \<and> minute_calls (pending db') a (minute_bucket (clock_now env))
              = minute_calls (pending db) a (minute_bucket (clock_now env)) + n
          \<and> trip_calls (pending db') a (trip_id t) (clock_today env)
              = trip_calls (pending db) a (trip_id t) (clock_today env) + n
          \<and> (\<forall>x d'. (x, d') \<noteq> (a, clock_today env)
                \<longrightarrow> daily_calls (pending db') x d' = daily_calls (pending db) x d')
          \<and> (\<forall>x mb'. (x, mb') \<noteq> (a, minute_bucket (clock_now env))
                \<longrightarrow> minute_calls (pending db') x mb' = minute_calls (pending db) x mb')
          \<and> (\<forall>x tid' d'. (tid', d') \<noteq> (trip_id t, clock_today env) \<or> (x = ''owm'') \<noteq> (a = ''owm'')
                \<longrightarrow> trip_calls (pending db') x tid' d' = trip_calls (pending db) x tid' d')
          \<and> committed db' = pending db')
       \<and> (\<forall>caps cs. within_caps cfg caps (pending db) \<longrightarrow> (\<forall>c\<in>set cs. call_ok caps c)
            \<longrightarrow> within_caps cfg caps (pending (consume_all cfg db cs))
              \<and> (cs \<noteq> [] \<longrightarrow> within_caps cfg caps (committed (consume_all cfg db cs))))"
proof -
  let ?d = "clock_today env" and ?mb = "minute_bucket (clock_now env)"
  from run have db': "db' = fst (consume_budget cfg env db t a k n)"
    and res: "res = snd (consume_budget cfg env db t a k n)"
    by simp_all
  have den: "(\<exists>r. res = Inr (False, r)) \<longleftrightarrow> denies cfg (pending db) t a ?d ?mb n"
    unfolding res by (rule consume_result_denied)
  have p1: "(\<exists>r. res = Inr (False, r)) \<longleftrightarrow> exceeds_a_cap cfg (pending db) t a ?d ?mb n"
    using den denies_iff_exceeds [OF api] by simp
  have com: "committed db' = pending db'"
    unfolding db' by (rule consume_committed)
  have p2: "(\<exists>r. res = Inr (False, r)) \<longrightarrow>
            (\<forall>x d' mb' tid'.
                daily_calls (pending db') x d' = daily_calls (pending db) x d'
              \<and> minute_calls (pending db') x mb' = minute_calls (pending db) x mb'
              \<and> trip_calls (pending db') x tid' d' = trip_calls (pending db) x tid' d')
            \<and> committed db' = pending db'"
    using den com by (simp add: db' consume_counters_denied)
  have app: "(\<exists>r. res = Inr (True, r)) \<Longrightarrow> \<not> denies cfg (pending db) t a ?d ?mb n"
    unfolding res using consume_result_approved by blast
  have p3: "(\<exists>r. res = Inr (True, r)) \<longrightarrow>
            daily_calls (pending db') a ?d = daily_calls (pending db) a ?d + n
          \<and> minute_calls (pending db') a ?mb = minute_calls (pending db) a ?mb + n
          \<and> trip_calls (pending db') a (trip_id t) ?d = trip_calls (pending db) a (trip_id t) ?d + n
          \<and> (\<forall>x d'. (x, d') \<noteq> (a, ?d)
                \<longrightarrow> daily_calls (pending db') x d' = daily_calls (pending db) x d')
          \<and> (\<forall>x mb'. (x, mb') \<noteq> (a, ?mb)
                \<longrightarrow> minute_calls (pending db') x mb' = minute_calls (pending db) x mb')
          \<and> (\<forall>x tid' d'. (tid', d') \<noteq> (trip_id t, ?d) \<or> (x = ''owm'') \<noteq> (a = ''owm'')
                \<longrightarrow> trip_calls (pending db') x tid' d' = trip_calls (pending db) x tid' d')
          \<and> committed db' = pending db'"
  proof
    assume "\<exists>r. res = Inr (True, r)"
    then have nd: "\<not> denies cfg (pending db) t a ?d ?mb n" by (rule app)
    show "daily_calls (pending db') a ?d = daily_calls (pending db) a ?d + n
          \<and> minute_calls (pending db') a ?mb = minute_calls (pending db) a ?mb + n
          \<and> trip_calls (pending db') a (trip_id t) ?d = trip_calls (pending db) a (trip_id t) ?d + n
          \<and> (\<forall>x d'. (x, d') \<noteq> (a, ?d)
                \<longrightarrow> daily_calls (pending db') x d' = daily_calls (pending db) x d')
          \<and> (\<forall>x mb'. (x, mb') \<noteq> (a, ?mb)
                \<longrightarrow> minute_calls (pending db') x mb' = minute_calls (pending db) x mb')
          \<and> (\<forall>x tid' d'. (tid', d') \<noteq> (trip_id t, ?d) \<or> (x = ''owm'') \<noteq> (a = ''owm'')
                \<longrightarrow> trip_calls (pending db') x tid' d' = trip_calls (pending db) x tid' d')
          \<and> committed db' = pending db'"
      using com by (auto simp: db' consume_counters_consumed [OF nd])
  qed
  have p4: "\<forall>caps cs. within_caps cfg caps (pending db) \<longrightarrow> (\<forall>c\<in>set cs. call_ok caps c)
            \<longrightarrow> within_caps cfg caps (pending (consume_all cfg db cs))
              \<and> (cs \<noteq> [] \<longrightarrow> within_caps cfg caps (committed (consume_all cfg db cs)))"
    using consume_all_within_caps consume_all_committed by metis
  from p1 p2 p3 p4 show ?thesis by blast
qed

lemma example_counters:
  "daily_calls example_store a d = 0" "minute_calls example_store a mb = 0"
  "trip_calls example_store a tid d = 0"
  by (simp_all add: counter_defs example_store_def)

lemma example_approved_result: "snd example_approved = Inr (True, Ok)"
  by (simp add: example_approved_def consume_budget_unfold Let_def open_session_def
        example_counters daily_limit_of_def per_min_limit_of_def trip_cap_of_def
        default_config_def example_trip_def example_env_def)

lemma example_denied_result:
  "snd example_denied = Inr (False, Trip_daily_cap ''route'' 0 15)"
  by (simp add: example_denied_def consume_budget_unfold Let_def open_session_def
        example_counters daily_limit_of_def per_min_limit_of_def trip_cap_of_def
        default_config_def example_trip_def example_env_def)

lemma example_within_caps: "within_caps default_config (\<lambda>tid. (30, 15)) example_store"
  by (simp add: within_caps_def example_counters default_config_def)

lemma example_call_ok: "call_ok (\<lambda>tid. (30, 15)) (example_call a k) \<longleftrightarrow> a = ''owm'' \<or> a = ''route''"
  by (simp add: call_ok_def example_call_def example_trip_def)

theorem consume_budget_caps_witness:
  "snd example_approved = Inr (True, Ok)
   \<and> daily_calls (pending (fst example_approved)) ''route'' example_today = 1
   \<and> minute_calls (pending (fst example_approved)) ''route'' (minute_bucket example_now) = 1
   \<and> trip_calls (pending (fst example_approved)) ''route'' 1 example_today = 1
   \<and> snd example_denied = Inr (False, Trip_daily_cap ''route'' 0 15)
   \<and> exceeds_a_cap default_config example_store example_trip ''route'' example_today
        (minute_bucket example_now) 16
   \<and> daily_calls (pending (fst example_denied)) ''route'' example_today = 0
   \<and> minute_calls (pending (fst example_denied)) ''route'' (minute_bucket example_now) = 0
   \<and> trip_calls (pending (fst example_denied)) ''route'' 1 example_today = 0
   \<and> within_caps default_config (\<lambda>tid. (30, 15)) example_store
   \<and> within_caps default_config (\<lambda>tid. (30, 15))
        (committed (consume_all default_config (open_session example_store)
           [example_call ''route'' ''route_calc'', example_call ''owm'' ''weather_forecast'']))"
proof -
  have api: "''route'' = ''owm'' \<or> ''route'' = ''route''" by simp
  have run1: "consume_budget default_config example_env (open_session example_store)
                example_trip ''route'' ''route_calc'' 1 = (fst example_approved, snd example_approved)"
    by (simp add: example_approved_def)
  have run2: "consume_budget default_config example_env (open_session example_store)
                example_trip ''route'' ''route_calc'' 16 = (fst example_denied, snd example_denied)"
    by (simp add: example_denied_def)
  have e: "pending (open_session example_store) = example_store"
    "clock_today example_env = example_today" "clock_now example_env = example_now"
    "trip_id example_trip = 1"
    by (simp_all add: example_env_def example_trip_def open_session_def)
  have a1: "\<exists>r. snd example_approved = Inr (True, r)" using example_approved_result by blast
  have a2: "\<exists>r. snd example_denied = Inr (False, r)" using example_denied_result by blast
  note app = consume_budget_caps [OF run1 api, THEN conjunct2, THEN conjunct2, THEN conjunct1,
      THEN mp, OF a1, unfolded e example_counters]
  note den = consume_budget_caps [OF run2 api, THEN conjunct2, THEN conjunct1, THEN mp, OF a2,
      THEN conjunct1, unfolded e example_counters]
  note exc = consume_budget_caps [OF run2 api, THEN conjunct1, THEN iffD1, OF a2, unfolded e]
  note inv = consume_budget_caps [OF run1 api, THEN conjunct2, THEN conjunct2, THEN conjunct2,
      THEN spec, THEN spec, THEN mp, THEN mp, THEN conjunct2, THEN mp, unfolded e]
  have calls: "\<forall>c\<in>set [example_call ''route'' ''route_calc'', example_call ''owm'' ''weather_forecast''].
                  call_ok (\<lambda>tid. (30, 15)) c"
    by (simp add: example_call_ok)
  have ne: "[example_call ''route'' ''route_calc'', example_call ''owm'' ''weather_forecast''] \<noteq> []"
    by simp
  have c1: "daily_calls (pending (fst example_approved)) ''route'' example_today = 1"
    "minute_calls (pending (fst example_approved)) ''route'' (minute_bucket example_now) = 1"
    "trip_calls (pending (fst example_approved)) ''route'' 1 example_today = 1"
    using app by simp_all
  have c2: "daily_calls (pending (fst example_denied)) ''route'' example_today = 0"
    "minute_calls (pending (fst example_denied)) ''route'' (minute_bucket example_now) = 0"
    "trip_calls (pending (fst example_denied)) ''route'' 1 example_today = 0"
    using den by simp_all
  from c1 c2 exc inv [OF example_within_caps calls ne] example_approved_result
    example_denied_result example_within_caps
  show ?thesis by simp
qed

subsection \<open>A failing audit insert\<close>

lemma trip_updates_ensured [simp]:
  "trip_updates (ensured a d mb tid st) = trip_updates st"
  by (simp add: ensured_def ensure_defs split: option.splits)

lemma trip_updates_add_calls [simp]:
  "trip_updates (add_calls a d mb tid gd gm tu n st) = trip_updates st"
  by (simp add: add_calls_def)

lemma consume_raised_events:
  "snd (consume_budget cfg env db t a k n) = Inl e
     \<Longrightarrow> e = DatabaseError
       \<and> trip_updates (committed (fst (consume_budget cfg env db t a k n))) = trip_updates (pending db)"
  by (auto simp: consume_budget_unfold Let_def split: if_splits)

lemma example_audit_failure_result: "snd example_audit_failure = Inl DatabaseError"
  by (simp add: example_audit_failure_def consume_budget_unfold Let_def open_session_def
        example_counters daily_limit_of_def per_min_limit_of_def trip_cap_of_def
        default_config_def example_trip_def example_failing_env_def)

text \<open>
  Claim C8, as stated: when the insert of the \<open>budget_consume\<close> audit row fails after
  an approved consume, the increments of the three counters are rolled back.  The code
  commits the increments before it inserts the audit row, so the exception leaves them
  in the database: on the example database all three counters are 0 before the call and
  1 after it, once the session is closed.
\<close>

theorem consume_audit_failure_counterexample:
  "snd example_audit_failure = Inl DatabaseError
   \<and> daily_calls example_store ''route'' example_today = 0
   \<and> daily_calls (close_session (fst example_audit_failure)) ''route'' example_today = 1
   \<and> minute_calls example_store ''route'' (minute_bucket example_now) = 0
   \<and> minute_calls (close_session (fst example_audit_failure)) ''route'' (minute_bucket example_now) = 1
   \<and> trip_calls example_store ''route'' 1 example_today = 0
   \<and> trip_calls (close_session (fst example_audit_failure)) ''route'' 1 example_today = 1"
proof -
  have nd: "\<not> denies default_config (pending (open_session example_store)) example_trip ''route''
              (clock_today example_failing_env) (minute_bucket (clock_now example_failing_env)) 1"
    by (simp add: denies_def open_session_def example_counters daily_limit_of_def
          per_min_limit_of_def trip_cap_of_def default_config_def example_trip_def)
  have e: "clock_today example_failing_env = example_today"
    "clock_now example_failing_env = example_now" "trip_id example_trip = 1"
    "pending (open_session example_store) = example_store"
    by (simp_all add: example_failing_env_def example_trip_def open_session_def)
  have c: "daily_calls (pending (fst example_audit_failure)) ''route'' example_today = 1"
    "minute_calls (pending (fst example_audit_failure)) ''route'' (minute_bucket example_now) = 1"
    "trip_calls (pending (fst example_audit_failure)) ''route'' 1 example_today = 1"
    using consume_counters_consumed [OF nd, of "''route_calc''"]
    by (simp_all add: example_counters example_audit_failure_def e)
  have k: "close_session (fst example_audit_failure) = pending (fst example_audit_failure)"
    by (simp add: close_session_def example_audit_failure_def consume_committed)
  show ?thesis
    using c by (simp add: example_audit_failure_result example_counters k)
qed

text \<open>
  Claim C8, amended.  A consume raises only when the caps were passed and the insert of
  the audit row fails; the exception is the database's, the three increments are already
  committed and stay in the database after the session is closed (exactly \<open>amount\<close>
  was added to each of the three counters), and no audit row was written.  Only the
  transaction of the audit insert is aborted.
\<close>

theorem consume_audit_failure_keeps_increments:
  assumes run: "consume_budget cfg env db t a k n = (db', Inl e)"
  shows "audit_insert_fails env \<and> e = DatabaseError
       \<and> daily_calls (close_session db') a (clock_today env)
            = daily_calls (pending db) a (clock_today env) + n
       \<and> minute_calls (close_session db') a (minute_bucket (clock_now env))
            = minute_calls (pending db) a (minute_bucket (clock_now env)) + n
       \<and> trip_calls (close_session db') a (trip_id t) (clock_today env)
            = trip_calls (pending db) a (trip_id t) (clock_today env) + n
       \<and> trip_updates (close_session db') = trip_updates (pending db)"
proof -
  from run have db': "db' = fst (consume_budget cfg env db t a k n)"
    and res: "snd (consume_budget cfg env db t a k n) = Inl e"
    by simp_all
  from res consume_result_raised [of cfg env db t a k n]
  have nd: "\<not> denies cfg (pending db) t a (clock_today env) (minute_bucket (clock_now env)) n"
    and f: "audit_insert_fails env"
    by blast+
  from consume_raised_events [OF res] have ev: "e = DatabaseError"
    "trip_updates (close_session db') = trip_updates (pending db)"
    by (simp_all add: db' close_session_def)
  show ?thesis
    using f ev by (simp add: db' close_session_def consume_committed consume_counters_consumed [OF nd])
qed

theorem consume_audit_failure_keeps_increments_witness:
  "consume_budget default_config example_failing_env (open_session example_store) example_trip
       ''route'' ''route_calc'' 1 = (fst example_audit_failure, Inl DatabaseError)
   \<and> audit_insert_fails example_failing_env
   \<and> daily_calls (close_session (fst example_audit_failure)) ''route'' example_today = 0 + 1
   \<and> trip_updates (close_session (fst example_audit_failure)) = []"
proof -
  have run: "consume_budget default_config example_failing_env (open_session example_store)
       example_trip ''route'' ''route_calc'' 1 = (fst example_audit_failure, Inl DatabaseError)"
    using example_audit_failure_result by (simp add: example_audit_failure_def prod_eq_iff)
  have e: "clock_today example_failing_env = example_today"
    "pending (open_session example_store) = example_store"
    "trip_updates example_store = []"
    by (simp_all add: example_failing_env_def open_session_def example_store_def)
  note t = consume_audit_failure_keeps_increments [OF run, unfolded e example_counters]
  from run t show ?thesis by blast
qed

subsection \<open>The risk model\<close>

text \<open>Values of \<open>fl\<close> that the scenarios below need.\<close>

lemma fl_010: "fl (1 / 10) = 3602879701896397 / 36028797018963968"
proof -
  have r: "rhe (36028797018963968 / 5) = 7205759403792794"
    by (rule rhe_near) simp_all
  show ?thesis
    by (subst fl_eqI [of "- 56"]) (simp_all add: r)
qed

lemma fl_020: "fl (1 / 5) = 3602879701896397 / 18014398509481984"
proof -
  have r: "rhe (36028797018963968 / 5) = 7205759403792794"
    by (rule rhe_near) simp_all
  show ?thesis
    by (subst fl_eqI [of "- 55"]) (simp_all add: r)
qed

lemma fl_040: "fl (2 / 5) = 3602879701896397 / 9007199254740992"
proof -
  have r: "rhe (36028797018963968 / 5) = 7205759403792794"
    by (rule rhe_near) simp_all
  show ?thesis
    by (subst fl_eqI [of "- 54"]) (simp_all add: r)
qed

lemma fl_070: "fl (7 / 10) = 3152519739159347 / 4503599627370496"
proof -
  have r: "rhe (31525197391593472 / 5) = 6305039478318694"
    by (rule rhe_near) simp_all
  show ?thesis
    by (subst fl_eqI [of "- 53"]) (simp_all add: r)
qed

lemma fl_085: "fl (17 / 20) = 7656119366529843 / 9007199254740992"
proof -
  have r: "rhe (38280596832649216 / 5) = 7656119366529843"
    by (rule rhe_near) simp_all
  show ?thesis
    by (subst fl_eqI [of "- 53"]) (simp_all add: r)
qed

lemma fl_099: "fl (99 / 100) = 4458563631096791 / 4503599627370496"
proof -
  have r: "rhe (222928181554839552 / 25) = 8917127262193582"
    by (rule rhe_near) simp_all
  show ?thesis
    by (subst fl_eqI [of "- 53"]) (simp_all add: r)
qed

lemma fl_025: "fl (1 / 4) = 1 / 4"
proof -
  have r: "rhe (4503599627370496) = 4503599627370496"
    using rhe_of_int [of "4503599627370496"] by simp
  show ?thesis
    by (subst fl_eqI [of "- 54"]) (simp_all add: r)
qed

lemma fl_150: "fl (150) = 150"
proof -
  have r: "rhe (5277655813324800) = 5277655813324800"
    using rhe_of_int [of "5277655813324800"] by simp
  show ?thesis
    by (subst fl_eqI [of "- 45"]) (simp_all add: r)
qed

lemma fl_5_2: "fl (5 / 2) = 5 / 2"
proof -
  have r: "rhe (5629499534213120) = 5629499534213120"
    using rhe_of_int [of "5629499534213120"] by simp
  show ?thesis
    by (subst fl_eqI [of "- 51"]) (simp_all add: r)
qed

lemma fl_base040: "fl (3602879701896397 / 9007199254740992) = 3602879701896397 / 9007199254740992"
proof -
  have r: "rhe (7205759403792794) = 7205759403792794"
    using rhe_of_int [of "7205759403792794"] by simp
  show ?thesis
    by (subst fl_eqI [of "- 54"]) (simp_all add: r)
qed

lemma fl_pct040: "fl (90071992547409925 / 2251799813685248) = 40"
proof -
  have r: "rhe (90071992547409925 / 16) = 5629499534213120"
    by (rule rhe_near) simp_all
  show ?thesis
    by (subst fl_eqI [of "- 47"]) (simp_all add: r)
qed

lemma fl_quarter_sev: "fl (3602879701896397 / 144115188075855872) = 3602879701896397 / 144115188075855872"
proof -
  have r: "rhe (7205759403792794) = 7205759403792794"
    using rhe_of_int [of "7205759403792794"] by simp
  show ?thesis
    by (subst fl_eqI [of "- 58"]) (simp_all add: r)
qed

lemma fl_risk_s1: "fl (18014398509481985 / 144115188075855872) = 1 / 8"
proof -
  have r: "rhe (18014398509481985 / 4) = 4503599627370496"
    by (rule rhe_near) simp_all
  show ?thesis
    by (subst fl_eqI [of "- 55"]) (simp_all add: r)
qed

lemma fl_pct_s1: "fl (25 / 2) = 25 / 2"
proof -
  have r: "rhe (7036874417766400) = 7036874417766400"
    using rhe_of_int [of "7036874417766400"] by simp
  show ?thesis
    by (subst fl_eqI [of "- 49"]) (simp_all add: r)
qed

lemma fl_18000: "fl (18000) = 18000"
proof -
  have r: "rhe (4947802324992000) = 4947802324992000"
    using rhe_of_int [of "4947802324992000"] by simp
  show ?thesis
    by (subst fl_eqI [of "- 38"]) (simp_all add: r)
qed

lemma fl_300: "fl (300) = 300"
proof -
  have r: "rhe (5277655813324800) = 5277655813324800"
    using rhe_of_int [of "5277655813324800"] by simp
  show ?thesis
    by (subst fl_eqI [of "- 44"]) (simp_all add: r)
qed

lemma fl_0 [simp]: "fl 0 = 0"
  by (simp add: fl_def)

lemma rhe_numeral [simp]: "rhe (numeral n) = numeral n"
  using rhe_of_int [of "numeral n"] by simp

lemma rhe_0 [simp]: "rhe 0 = 0"
  using rhe_of_int [of 0] by simp

lemma rhe_5_2: "rhe (5 / 2) = 2"
  by (rule rhe_tie_even) simp_all

lemma rhe_25_2: "rhe (25 / 2) = 12"
  by (rule rhe_tie_even) simp_all

lemma round_5_2: "round (5 / 2 :: rat) = 3"
  by (simp add: round_def)

lemma risk_at_150:
  "risk 1700000150000000 1700000000000000 0 = (40, yellow, 2, Why 2 0, suggestion_yellow)"
  using glyphs_distinct
  by (simp add: risk_def total_seconds_def Let_def py_min_def py_max_def
        fl_150 fl_040 fl_025 fl_base040 fl_099 fl_pct040 fl_5_2 rhe_5_2)

lemma spec_risk_at_150:
  "spec_risk 1700000150000000 1700000000000000 0 = (40, yellow, 3)"
  by (simp add: spec_risk_def spec_base_def spec_status_def clamp_def Let_def round_5_2)

lemma fl_25_2: "fl (25 / 2) = 25 / 2"
proof -
  have r: "rhe 7036874417766400 = 7036874417766400"
    using rhe_of_int [of 7036874417766400] by simp
  show ?thesis
    by (subst fl_eqI [of "-49"]) (simp_all add: r)
qed

lemma risk_scenario_1:
  "risk 1700021600000000 1700003600000000 (3602879701896397 / 36028797018963968)
     = (12, green, 300, Why 300 (3602879701896397 / 36028797018963968), suggestion_green)"
  by (simp add: risk_def total_seconds_def Let_def py_min_def py_max_def
        fl_18000 fl_010 fl_025 fl_quarter_sev fl_risk_s1 fl_099 fl_25_2 fl_300 rhe_25_2)

lemma spec_risk_scenario_1:
  "spec_risk 1700021600000000 1700003600000000 (3602879701896397 / 36028797018963968)
     = (13, green, 300)"
  apply (simp add: spec_risk_def spec_base_def spec_status_def clamp_def Let_def round_def)
  apply (intro conjI floor_unique; simp)
  done

text \<open>
  Claim C2, as stated: \<open>pct = round(risk * 100)\<close> and
  \<open>buffer_minutes = round(slack_s / 60)\<close>.  With a deadline 150 seconds after the
  ETA and severity 0 the quotient is exactly 2.5: the code returns a buffer of 2 minutes
  (Python rounds a tie to the even integer), the rounding of the specification gives 3.
  In the specification's first scenario (deadline six hours ahead, a route of 3600
  seconds, severity 0.1) the binary64 sum \<open>0.10 + 0.25 * 0.1\<close> is exactly 0.125 and
  the code returns 12 per cent, where the specification computes 13.
\<close>

theorem risk_rounding_counterexample:
  "risk 1700000150000000 1700000000000000 0 = (40, yellow, 2, Why 2 0, suggestion_yellow)
   \<and> spec_risk 1700000150000000 1700000000000000 0 = (40, yellow, 3)
   \<and> risk 1700021600000000 1700003600000000 (fl (1 / 10))
        = (12, green, 300, Why 300 (fl (1 / 10)), suggestion_green)
   \<and> spec_risk 1700021600000000 1700003600000000 (fl (1 / 10)) = (13, green, 300)"
  by (simp add: risk_at_150 spec_risk_at_150 fl_010 risk_scenario_1 spec_risk_scenario_1)

text \<open>
  Claim C2, amended.  The risk model is a function of \<open>(deadline, eta, severity)\<close>
  alone, computed in binary64 arithmetic: with \<open>slack_s\<close> the float of
  \<open>deadline - eta\<close> in seconds, \<open>base\<close> is 0.10 if \<open>slack_s \<ge> 14400\<close>, 0.20
  if \<open>slack_s \<ge> 7200\<close>, 0.40 if \<open>slack_s \<ge> 0\<close>, 0.70 if
  \<open>slack_s \<ge> -7200\<close>, else 0.85; \<open>risk = clamp(base + 0.25 * severity, 0, 0.99)\<close>;
  \<open>pct\<close> is \<open>risk * 100\<close> rounded to the nearest integer, a tie going to the
  even integer; the status is green if \<open>pct < 34\<close>, yellow if \<open>pct < 67\<close>, else
  red; and \<open>buffer_minutes\<close> is \<open>slack_s / 60\<close> rounded in the same way.  The
  result carries the buffer and the severity in its \<open>why\<close> text and the suggestion
  of its status.
\<close>

theorem risk_is_float_risk:
  "(case risk deadline eta sev of (pct, stat, buf, w, sugg) \<Rightarrow> (pct, stat, buf))
      = float_risk deadline eta sev
   \<and> fst (snd (risk deadline eta sev)) \<in> {green, yellow, red}
   \<and> fst (snd (snd (snd (risk deadline eta sev))))
        = Why (fst (snd (snd (risk deadline eta sev)))) sev
   \<and> snd (snd (snd (snd (risk deadline eta sev))))
        = (if fst (risk deadline eta sev) < 34 then suggestion_green
           else if fst (risk deadline eta sev) < 67 then suggestion_yellow
           else suggestion_red)"
proof -
  have hi: "0 < fl (99 / 100)" by (simp add: fl_099)
  have cl: "\<And>x. py_min (fl (99 / 100)) (py_max 0 x) = clamp x 0 (fl (99 / 100))"
    using hi by (auto simp: py_min_def py_max_def clamp_def)
  show ?thesis
    using glyphs_distinct
    by (simp add: risk_def float_risk_def total_seconds_def Let_def cl float_base_def spec_status_def)
qed

subsection \<open>Rounding twice\<close>

text \<open>
  A value of \<open>fl\<close> has a significand of 53 bits, and \<open>fl\<close> leaves such a
  number as it is: a float converted to a float is the same float.
\<close>

lemma rhe_floor_cases: "rhe y = \<lfloor>y\<rfloor> \<or> rhe y = \<lfloor>y\<rfloor> + 1 \<and> of_int \<lfloor>y\<rfloor> < y"
  by (auto simp: rhe_def Let_def)

lemma rhe_ge: "of_int a \<le> y \<Longrightarrow> a \<le> rhe y"
proof -
  assume "of_int a \<le> y"
  then have "a \<le> \<lfloor>y\<rfloor>" by (simp add: le_floor_iff)
  with rhe_floor_cases [of y] show ?thesis by auto
qed

lemma rhe_le: "y \<le> of_int b \<Longrightarrow> rhe y \<le> b"
proof -
  assume b: "y \<le> of_int b"
  then have f: "\<lfloor>y\<rfloor> \<le> b" by linarith
  from rhe_floor_cases [of y] show ?thesis
  proof
    assume "rhe y = \<lfloor>y\<rfloor>" with f show ?thesis by simp
  next
    assume h: "rhe y = \<lfloor>y\<rfloor> + 1 \<and> of_int \<lfloor>y\<rfloor> < y"
    then have "(of_int \<lfloor>y\<rfloor> :: rat) < of_int b" using b by linarith
    then have "\<lfloor>y\<rfloor> < b" by simp
    with h show ?thesis by simp
  qed
qed

lemma fl_exact:
  assumes "2 ^ 52 \<le> \<bar>m\<bar>" and "\<bar>m\<bar> \<le> 2 ^ 53"
  shows "fl (of_int m * 2 powi e) = of_int m * 2 powi e"
proof (cases "\<bar>m\<bar> = 2 ^ 53")
  case False
  with assms have lt: "\<bar>m\<bar> < 2 ^ 53" by simp
  have u: "(0::rat) < 2 powi e" by simp
  have a: "\<bar>of_int m * 2 powi e\<bar> = of_int \<bar>m\<bar> * (2::rat) powi e"
    by (simp add: abs_mult)
  have "(2::rat) ^ 52 \<le> of_int \<bar>m\<bar>" using assms(1) by (metis of_int_le_iff of_int_numeral of_int_power)
  then have lo: "2 powi (e + 52) \<le> \<bar>of_int m * (2::rat) powi e\<bar>"
    unfolding a by (simp add: power_int_add mult.commute)
  have "of_int \<bar>m\<bar> < (2::rat) ^ 53" using lt by (metis of_int_less_iff of_int_numeral of_int_power)
  then have hi: "\<bar>of_int m * (2::rat) powi e\<bar> < 2 powi (e + 53)"
    unfolding a by (simp add: power_int_add mult.commute)
  show ?thesis
    by (subst fl_eqI [OF lo hi]) simp
next
  case True
  then have m: "m = 2 ^ 53 \<or> m = - (2 ^ 53)" by linarith
  have v: "of_int m * (2::rat) powi e = of_int (m div 2) * 2 powi (e + 1)"
    using m by (auto simp: power_int_add)
  have a: "\<bar>of_int (m div 2) * 2 powi (e + 1)\<bar> = (2::rat) ^ 52 * 2 powi (e + 1)"
    using m by (auto simp: abs_mult)
  have lo: "2 powi (e + 1 + 52) \<le> \<bar>of_int (m div 2) * (2::rat) powi (e + 1)\<bar>"
    unfolding a by (simp add: power_int_add mult.commute)
  have hi: "\<bar>of_int (m div 2) * (2::rat) powi (e + 1)\<bar> < 2 powi (e + 1 + 53)"
    unfolding a by (simp add: power_int_add mult.commute)
  show ?thesis
    unfolding v by (subst fl_eqI [OF lo hi]) simp
qed

lemma fl_repr:
  assumes "x \<noteq> 0"
  shows "\<exists>m e. fl x = of_int m * 2 powi e \<and> 2 ^ 52 \<le> \<bar>m\<bar> \<and> \<bar>m\<bar> \<le> 2 ^ 53"
proof -
  define e where "e = ilog2 \<bar>x\<bar> - 52"
  define y where "y = x / 2 powi e"
  have pos: "0 < \<bar>x\<bar>" using assms by simp
  from ilog2_bounds [OF pos] have b: "2 powi (e + 52) \<le> \<bar>x\<bar>" "\<bar>x\<bar> < 2 powi (e + 53)"
    by (simp_all add: e_def add.commute)
  have ay: "\<bar>y\<bar> = \<bar>x\<bar> / 2 powi e" by (simp add: y_def)
  have y: "2 ^ 52 \<le> \<bar>y\<bar>" "\<bar>y\<bar> < 2 ^ 53"
    using b unfolding ay by (simp_all add: power_int_add pos_le_divide_eq pos_divide_less_eq mult.commute)
  have f: "fl x = of_int (rhe y) * 2 powi e"
    using assms by (simp add: fl_def e_def y_def Let_def)
  have "2 ^ 52 \<le> \<bar>rhe y\<bar> \<and> \<bar>rhe y\<bar> \<le> 2 ^ 53"
  proof (cases "0 \<le> y")
    case True
    with y have "of_int (2 ^ 52) \<le> y" "y \<le> of_int (2 ^ 53)" by simp_all
    then have "2 ^ 52 \<le> rhe y" "rhe y \<le> 2 ^ 53" by (simp_all only: rhe_ge rhe_le)
    then show ?thesis by simp
  next
    case False
    with y have "of_int (- (2 ^ 53)) \<le> y" "y \<le> of_int (- (2 ^ 52))" by simp_all
    then have "- (2 ^ 53) \<le> rhe y" "rhe y \<le> - (2 ^ 52)" by (simp_all only: rhe_ge rhe_le)
    then show ?thesis by simp
  qed
  with f show ?thesis by blast
qed

lemma fl_fl [simp]: "fl (fl x) = fl x"
proof (cases "x = 0")
  case True
  then show ?thesis by (simp add: fl_def)
next
  case False
  from fl_repr [OF this] obtain m e where "fl x = of_int m * 2 powi e"
    "2 ^ 52 \<le> \<bar>m\<bar>" "\<bar>m\<bar> \<le> 2 ^ 53" by blast
  then show ?thesis by (simp add: fl_exact)
qed

subsection \<open>The forecast client\<close>





lemma nearest_empty: "nearest eta_dt [] None = Inr None"
  by simp




lemma fl_800: "fl (800) = 800"
proof -
  have r: "rhe (7036874417766400) = 7036874417766400"
    using rhe_of_int [of "7036874417766400"] by simp
  show ?thesis
    by (subst fl_eqI [of "- 43"]) (simp_all add: r)
qed






subsection \<open>The recalculator\<close>

lemma update_trip_simps [simp]:
  "trip_updates (update_trip tid f st) = trip_updates st"
  "api_usage_daily (update_trip tid f st) = api_usage_daily st"
  "api_usage_minute (update_trip tid f st) = api_usage_minute st"
  "trip_api_usage_daily (update_trip tid f st) = trip_api_usage_daily st"
  "trips (update_trip tid f st) tid' =
     (if tid' = tid then map_option f (trips st tid) else trips st tid')"
  by (auto simp: update_trip_def split: option.splits)

lemma insert_trip_update_simps [simp]:
  "trip_updates (insert_trip_update tid k p st)
     = trip_updates st @ [\<lparr>update_trip_id = tid, kind = k, payload = p\<rparr>]"
  "trips (insert_trip_update tid k p st) = trips st"
  "api_usage_daily (insert_trip_update tid k p st) = api_usage_daily st"
  "api_usage_minute (insert_trip_update tid k p st) = api_usage_minute st"
  "trip_api_usage_daily (insert_trip_update tid k p st) = trip_api_usage_daily st"
  by (simp_all add: insert_trip_update_def)

lemma update_trip_counters [simp]:
  "daily_calls (update_trip tid f st) a d = daily_calls st a d"
  "minute_calls (update_trip tid f st) a mb = minute_calls st a mb"
  "trip_calls (update_trip tid f st) a tid' d = trip_calls st a tid' d"
  by (simp_all add: counter_defs)

lemma ensured_trips [simp]: "trips (ensured a d mb tid st) = trips st"
  by (simp add: ensured_def ensure_defs split: option.splits)

lemma add_calls_trips [simp]: "trips (add_calls a d mb tid gd gm tu n st) = trips st"
  by (simp add: add_calls_def)

text \<open>What a consume call leaves of the trips and of the audit events.\<close>

lemma consume_trips [simp]:
  "trips (pending (fst (consume_budget cfg env db t a k n))) = trips (pending db)"
  by (simp add: consume_budget_unfold Let_def)

lemma consume_events:
  "trip_updates (pending (fst (consume_budget cfg env db t a k n))) =
     trip_updates (pending db) @
       (if (\<exists>r. snd (consume_budget cfg env db t a k n) = Inr (True, r))
        then [\<lparr>update_trip_id = trip_id t, kind = ''budget_consume'', payload = Consume_payload a k n\<rparr>]
        else [])"
  by (simp add: consume_budget_unfold Let_def)




lemma coords_of_length: "coords_of ps = Inr cs \<Longrightarrow> length cs = length ps"
  by (induction ps arbitrary: cs) (auto split: option.splits sum.splits)

lemma open_session_simps [simp]:
  "pending (open_session st) = st" "committed (open_session st) = st"
  by (simp_all add: open_session_def)

lemma recalc_trip_valid:
  assumes t: "trips st tid = Some t" and len: "2 \<le> length (points_of t)"
    and cs: "coords_of (points_of t) = Inr coords"
  shows "\<exists>dest_lon dest_lat others. rev coords = (dest_lon, dest_lat) # others \<and>
         recalc_trip cfg env st tid =
           (case route_stage cfg env (open_session (started st tid t (recalc_now env))) t coords of
              Inl ended \<Rightarrow> ended
            | Inr (db, calls, dist_m, dur_opt, geom, provider) \<Rightarrow>
               (case dur_opt of
                  None \<Rightarrow> (close_session db, calls, Inl TypeError)
                | Some dur_s \<Rightarrow>
                    (case weather_stage cfg env db t dest_lat dest_lon (recalc_now env + seconds dur_s) of
                       Inl (st', calls', r) \<Rightarrow> (st', calls @ calls', r)
                     | Inr (db, calls', sev, wx, budget_limited) \<Rightarrow>
                         (case finish_stage env db t dist_m dur_s geom provider
                                 (recalc_now env + seconds dur_s) sev wx budget_limited of
                            (st', r) \<Rightarrow> (st', calls @ calls', Inr r)))))"
proof -
  from coords_of_length [OF cs] len have "rev coords \<noteq> []" by auto
  then obtain dest_lon dest_lat others where r: "rev coords = (dest_lon, dest_lat) # others"
    by (cases "rev coords") auto
  have s: "commit (execute (insert_trip_update tid ''recalc_running'' (Running_payload (recalc_now env)))
                     (execute (set_calc_state tid ''running'') (open_session st)))
           = open_session (started st tid t (recalc_now env))"
    using t by (simp add: session_defs set_calc_state_def update_trip_def insert_trip_update_def
        started_def)
  from len have nshort: "\<not> length (points_of t) < 2" by simp
  have "recalc_trip cfg env st tid =
           (case route_stage cfg env (open_session (started st tid t (recalc_now env))) t coords of
              Inl ended \<Rightarrow> ended
            | Inr (db, calls, dist_m, dur_opt, geom, provider) \<Rightarrow>
               (case dur_opt of
                  None \<Rightarrow> (close_session db, calls, Inl TypeError)
                | Some dur_s \<Rightarrow>
                    (case weather_stage cfg env db t dest_lat dest_lon (recalc_now env + seconds dur_s) of
                       Inl (st', calls', r) \<Rightarrow> (st', calls @ calls', r)
                     | Inr (db, calls', sev, wx, budget_limited) \<Rightarrow>
                         (case finish_stage env db t dist_m dur_s geom provider
                                 (recalc_now env + seconds dur_s) sev wx budget_limited of
                            (st', r) \<Rightarrow> (st', calls @ calls', Inr r)))))"
    unfolding recalc_trip_def Let_def
    by (simp only: open_session_simps t option.case s nshort if_False cs sum.case r list.case
          prod.case)
  with r show ?thesis by blast
qed

lemma consume_denied_result:
  assumes "denies cfg (pending db) t a (clock_today env) (minute_bucket (clock_now env)) n"
  shows "\<exists>rsn. consume_budget cfg env db t a k n =
           (db\<lparr>pending := ensured a (clock_today env) (minute_bucket (clock_now env)) (trip_id t) (pending db),
               committed := ensured a (clock_today env) (minute_bucket (clock_now env)) (trip_id t) (pending db)\<rparr>,
            Inr (False, rsn))"
  using assms by (auto simp: consume_budget_unfold Let_def denies_def)

lemma next_interval_budget_limited [simp]: "next_interval_seconds m s True = 2700"
  by (simp add: next_interval_seconds_def)

lemma started_simps [simp]:
  "trips (started st tid t now) = (trips st)(tid \<mapsto> t\<lparr>calc_state := ''running''\<rparr>)"
  "trip_updates (started st tid t now) = trip_updates st @
          [\<lparr>update_trip_id = tid, kind = ''recalc_running'', payload = Running_payload now\<rparr>]"
  "daily_calls (started st tid t now) a d = daily_calls st a d"
  "minute_calls (started st tid t now) a mb = minute_calls st a mb"
  "trip_calls (started st tid t now) a tid' d = trip_calls st a tid' d"
  by (simp_all add: started_def counter_defs)

lemma denies_started [simp]:
  "denies cfg (started st tid t now) t' a d mb n = denies cfg st t' a d mb n"
  by (simp add: denies_def)

lemma route_stage_denied:
  assumes need: "need_route t"
    and den: "denies cfg st t ''route'' (clock_today (route_consume_env env))
                (minute_bucket (clock_now (route_consume_env env))) 1"
  shows "\<exists>rsn st'. route_stage cfg env (open_session (started st (trip_id t) t (recalc_now env))) t coords
            = Inl (st', [], Inr (Budget_denied_route rsn))
         \<and> trips st' = (trips st)(trip_id t \<mapsto>
              t\<lparr>calc_state := ''budget_limited'',
                next_calc_at := Some (recalc_now env + seconds 2700),
                last_calc_at := Some (recalc_now env)\<rparr>)
         \<and> trip_updates st' = trip_updates st @
              [\<lparr>update_trip_id = trip_id t, kind = ''recalc_running'',
                payload = Running_payload (recalc_now env)\<rparr>,
               \<lparr>update_trip_id = trip_id t, kind = ''budget_denied'',
                payload = Denied_payload ''route'' rsn\<rparr>]
         \<and> (\<forall>a d mb tid'. daily_calls st' a d = daily_calls st a d
               \<and> minute_calls st' a mb = minute_calls st a mb
               \<and> trip_calls st' a tid' d = trip_calls st a tid' d)"
proof -
  let ?db = "open_session (started st (trip_id t) t (recalc_now env))"
  have "denies cfg (pending ?db) t ''route'' (clock_today (route_consume_env env))
                (minute_bucket (clock_now (route_consume_env env))) 1"
    using den by simp
  from consume_denied_result [OF this, of "''route_calc''"] obtain rsn where
    c: "consume_budget cfg (route_consume_env env) ?db t ''route'' ''route_calc'' 1 =
           (?db\<lparr>pending := ensured ''route'' (clock_today (route_consume_env env))
                    (minute_bucket (clock_now (route_consume_env env))) (trip_id t) (pending ?db),
               committed := ensured ''route'' (clock_today (route_consume_env env))
                    (minute_bucket (clock_now (route_consume_env env))) (trip_id t) (pending ?db)\<rparr>,
            Inr (False, rsn))"
    by blast
  show ?thesis
    apply (rule exI [of _ rsn])
    apply (simp add: route_stage_def need Let_def c)
    apply (simp add: session_defs set_calc_state_def reschedule_def fun_eq_iff)
    done
qed

text \<open>
  Claim C4.  A run on a trip that passes the validation and needs a route, and whose
  route consume is denied (one of the three route caps would be exceeded), makes no
  client call and returns \<open>budget_denied_route\<close> with the reason of the denial; it
  leaves the trip row as it was but for \<open>calc_state = budget_limited\<close>,
  \<open>next_calc_at = now + 2700 s\<close> (the interval of
  \<open>next_interval_seconds(policy, previous status or yellow, True)\<close>) and
  \<open>last_calc_at = now\<close>, so every route field is unchanged; the events of the run are
  \<open>recalc_running\<close> and exactly one \<open>budget_denied\<close> with api \<open>route\<close>, none
  is \<open>recalc_done\<close>; and no counter changes.
\<close>

theorem recalc_route_budget_denied:
  assumes t: "trips st (trip_id t) = Some t"
    and len: "2 \<le> length (points_of t)"
    and cs: "coords_of (points_of t) = Inr coords"
    and need: "need_route t"
    and den: "exceeds_a_cap cfg st t ''route'' (clock_today (route_consume_env env))
                (minute_bucket (clock_now (route_consume_env env))) 1"
  shows "\<exists>rsn st'. recalc_trip cfg env st (trip_id t) = (st', [], Inr (Budget_denied_route rsn))
         \<and> trips st' = (trips st)(trip_id t \<mapsto>
              t\<lparr>calc_state := ''budget_limited'',
                next_calc_at := Some (recalc_now env
                  + seconds (next_interval_seconds (policy_mode t) (status_or_yellow t) True)),
                last_calc_at := Some (recalc_now env)\<rparr>)
         \<and> map_option next_calc_at (trips st' (trip_id t)) = Some (Some (recalc_now env + seconds 2700))
         \<and> map_option route_distance_m (trips st' (trip_id t)) = Some (route_distance_m t)
         \<and> map_option route_duration_s (trips st' (trip_id t)) = Some (route_duration_s t)
         \<and> map_option route_geojson (trips st' (trip_id t)) = Some (route_geojson t)
         \<and> map_option eta_at (trips st' (trip_id t)) = Some (eta_at t)
         \<and> trip_updates st' = trip_updates st @
              [\<lparr>update_trip_id = trip_id t, kind = ''recalc_running'',
                payload = Running_payload (recalc_now env)\<rparr>,
               \<lparr>update_trip_id = trip_id t, kind = ''budget_denied'',
                payload = Denied_payload ''route'' rsn\<rparr>]
         \<and> ''recalc_done'' \<notin> kind ` set (drop (length (trip_updates st)) (trip_updates st'))
         \<and> (\<forall>a d mb tid'. daily_calls st' a d = daily_calls st a d
               \<and> minute_calls st' a mb = minute_calls st a mb
               \<and> trip_calls st' a tid' d = trip_calls st a tid' d)"
proof -
  from den have d: "denies cfg st t ''route'' (clock_today (route_consume_env env))
                (minute_bucket (clock_now (route_consume_env env))) 1"
    by (simp add: denies_iff_exceeds)
  from route_stage_denied [OF need d, of coords] obtain rsn st' where
    r: "route_stage cfg env (open_session (started st (trip_id t) t (recalc_now env))) t coords
            = Inl (st', [], Inr (Budget_denied_route rsn))"
    and tr: "trips st' = (trips st)(trip_id t \<mapsto>
              t\<lparr>calc_state := ''budget_limited'',
                next_calc_at := Some (recalc_now env + seconds 2700),
                last_calc_at := Some (recalc_now env)\<rparr>)"
    and ev: "trip_updates st' = trip_updates st @
              [\<lparr>update_trip_id = trip_id t, kind = ''recalc_running'',
                payload = Running_payload (recalc_now env)\<rparr>,
               \<lparr>update_trip_id = trip_id t, kind = ''budget_denied'',
                payload = Denied_payload ''route'' rsn\<rparr>]"
    and cn: "\<forall>a d mb tid'. daily_calls st' a d = daily_calls st a d
               \<and> minute_calls st' a mb = minute_calls st a mb
               \<and> trip_calls st' a tid' d = trip_calls st a tid' d"
    by blast
  from recalc_trip_valid [OF t len cs, of cfg env] r
  have run: "recalc_trip cfg env st (trip_id t) = (st', [], Inr (Budget_denied_route rsn))"
    by auto
  show ?thesis
    apply (rule exI [of _ rsn], rule exI [of _ st'])
    using run ev cn by (simp add: tr)
qed

lemma example_coords:
  "coords_of (points_of example_trip) =
     Inr [(fl (-4663 / 100), fl (-2355 / 100)), (fl (-4320 / 100), fl (-2290 / 100))]"
  by (simp add: points_of_def example_trip_def)

theorem recalc_route_budget_denied_witness:
  "trips example_capped_store (trip_id example_trip) = Some example_trip
   \<and> 2 \<le> length (points_of example_trip)
   \<and> need_route example_trip
   \<and> exceeds_a_cap default_config example_capped_store example_trip ''route''
        (clock_today (route_consume_env example_recalc_env))
        (minute_bucket (clock_now (route_consume_env example_recalc_env))) 1
   \<and> (\<exists>rsn st'. recalc_trip default_config example_recalc_env example_capped_store
                     (trip_id example_trip) = (st', [], Inr (Budget_denied_route rsn))
          \<and> map_option next_calc_at (trips st' (trip_id example_trip))
               = Some (Some (recalc_now example_recalc_env + seconds 2700))
          \<and> map_option route_duration_s (trips st' (trip_id example_trip))
               = Some (route_duration_s example_trip)
          \<and> trip_updates st' = trip_updates example_capped_store @
              [\<lparr>update_trip_id = trip_id example_trip, kind = ''recalc_running'',
                payload = Running_payload (recalc_now example_recalc_env)\<rparr>,
               \<lparr>update_trip_id = trip_id example_trip, kind = ''budget_denied'',
                payload = Denied_payload ''route'' rsn\<rparr>])"
proof -
  have t: "trips example_capped_store (trip_id example_trip) = Some example_trip"
    by (simp add: example_capped_store_def example_store_def example_trip_def)
  have len: "2 \<le> length (points_of example_trip)"
    by (simp add: points_of_def example_trip_def)
  have need: "need_route example_trip"
    by (simp add: need_route_def example_trip_def)
  have den: "exceeds_a_cap default_config example_capped_store example_trip ''route''
        (clock_today (route_consume_env example_recalc_env))
        (minute_bucket (clock_now (route_consume_env example_recalc_env))) 1"
    by (simp add: exceeds_a_cap_def example_capped_store_def example_store_def counter_defs
          example_recalc_env_def example_env_def per_min_limit_of_def default_config_def)
  from recalc_route_budget_denied [OF t len example_coords need den]
  obtain rsn st' where
    "recalc_trip default_config example_recalc_env example_capped_store
        (trip_id example_trip) = (st', [], Inr (Budget_denied_route rsn))"
    "map_option next_calc_at (trips st' (trip_id example_trip))
               = Some (Some (recalc_now example_recalc_env + seconds 2700))"
    "map_option route_duration_s (trips st' (trip_id example_trip))
               = Some (route_duration_s example_trip)"
    "trip_updates st' = trip_updates example_capped_store @
              [\<lparr>update_trip_id = trip_id example_trip, kind = ''recalc_running'',
                payload = Running_payload (recalc_now example_recalc_env)\<rparr>,
               \<lparr>update_trip_id = trip_id example_trip, kind = ''budget_denied'',
                payload = Denied_payload ''route'' rsn\<rparr>]"
    by blast
  with t len need den show ?thesis by blast
qed

lemma finish_stage_counters:
  "daily_calls (fst (finish_stage env db t dist_m dur_s geom provider eta sev wx bl)) a d
     = daily_calls (committed db) a d"
  "minute_calls (fst (finish_stage env db t dist_m dur_s geom provider eta sev wx bl)) a mb
     = minute_calls (committed db) a mb"
  "trip_calls (fst (finish_stage env db t dist_m dur_s geom provider eta sev wx bl)) a tid' d
     = trip_calls (committed db) a tid' d"
  by (cases "risk (deadline_at t) eta sev";
      simp add: finish_stage_def Let_def session_defs)+

lemma consume_owm_route_untouched:
  "route_untouched (pending db) (pending (fst (consume_budget cfg env db t ''owm'' k n)))"
proof (cases "denies cfg (pending db) t ''owm'' (clock_today env) (minute_bucket (clock_now env)) n")
  case True
  then show ?thesis by (simp add: route_untouched_def consume_counters_denied)
next
  case False
  then show ?thesis by (simp add: route_untouched_def consume_counters_consumed)
qed

lemma after_route_untouched:
  assumes "committed db = pending db"
  shows "route_untouched (pending db)
           (fst (after_route cfg env db t calls dist_m dur_s geom provider dest_lat dest_lon))"
    and "\<forall>coords. Route_call coords \<notin> set calls \<Longrightarrow> \<forall>coords. Route_call coords \<notin>
           set (fst (snd (after_route cfg env db t calls dist_m dur_s geom provider dest_lat dest_lon)))"
proof -
  let ?c = "consume_budget cfg (owm_consume_env env) db t ''owm'' ''weather_forecast'' 1"
  obtain db1 res where c: "?c = (db1, res)" by (cases ?c)
  have u: "route_untouched (pending db) (pending db1)"
    using consume_owm_route_untouched [of db cfg "owm_consume_env env" t "''weather_forecast''" 1] c
    by simp
  have k: "committed db1 = pending db1"
    using consume_committed [of cfg "owm_consume_env env" db t "''owm''" "''weather_forecast''" 1] c
    by simp
  show "route_untouched (pending db)
           (fst (after_route cfg env db t calls dist_m dur_s geom provider dest_lat dest_lon))"
    using u k
    by (auto simp: after_route_def weather_stage_def c route_untouched_def session_defs
          finish_stage_counters split_beta
          split: sum.splits prod.splits if_splits)
  show "\<forall>coords. Route_call coords \<notin> set calls \<Longrightarrow> \<forall>coords. Route_call coords \<notin>
           set (fst (snd (after_route cfg env db t calls dist_m dur_s geom provider dest_lat dest_lon)))"
    by (auto simp: after_route_def weather_stage_def c split_beta
          split: sum.splits prod.splits if_splits)
qed

lemma finish_stage_trip:
  assumes "trips (committed db) (trip_id t) = Some r"
  shows "\<exists>t' pct stat. trips (fst (finish_stage env db t dist_m dur_s geom provider eta sev wx bl)) (trip_id t) = Some t'
       \<and> snd (finish_stage env db t dist_m dur_s geom provider eta sev wx bl) = Recalc_ok pct stat bl
       \<and> calc_state t' = (if bl then ''budget_limited'' else ''done'')
       \<and> next_calc_at t' = Some (recalc_now env + seconds (next_interval_seconds (policy_mode t) stat bl))
       \<and> last_calc_at t' = Some (recalc_now env)
       \<and> route_distance_m t' = dist_m \<and> route_duration_s t' = Some dur_s \<and> route_geojson t' = geom"
  using assms
  by (cases "risk (deadline_at t) eta sev")
     (simp add: finish_stage_def Let_def session_defs)

text \<open>The outcomes of the weather and last stages, by the result of the consume call.\<close>

lemma after_route_cases:
  fixes cfg env db t calls dist_m dur_s geom provider dest_lat dest_lon
  defines "c \<equiv> consume_budget cfg (owm_consume_env env) db t ''owm'' ''weather_forecast'' 1"
    and "eta \<equiv> recalc_now env + seconds dur_s"
    and "out \<equiv> after_route cfg env db t calls dist_m dur_s geom provider dest_lat dest_lon"
  shows "(\<exists>e. snd c = Inl e \<and> out = (committed (fst c), calls, Inl e))
       \<or> (\<exists>rsn. snd c = Inr (False, rsn)
            \<and> out = (fst (finish_stage env
                        (commit (execute (insert_trip_update (trip_id t) ''budget_denied''
                           (Denied_payload ''owm'' rsn)) (fst c)))
                        t dist_m dur_s geom provider eta 0 (Weather_denied rsn) True),
                      calls,
                      Inr (snd (finish_stage env
                        (commit (execute (insert_trip_update (trip_id t) ''budget_denied''
                           (Denied_payload ''owm'' rsn)) (fst c)))
                        t dist_m dur_s geom provider eta 0 (Weather_denied rsn) True))))
       \<or> (\<exists>rsn sev wx. snd c = Inr (True, rsn)
            \<and> out = (fst (finish_stage env (fst c) t dist_m dur_s geom provider eta sev wx False),
                      calls @ [Forecast_call dest_lat dest_lon eta],
                      Inr (snd (finish_stage env (fst c) t dist_m dur_s geom provider eta sev wx False))))"
proof -
  obtain db1 res where cc: "c = (db1, res)" by (cases c)
  show ?thesis
  proof (cases res)
    case (Inl e)
    then show ?thesis
      using cc unfolding out_def after_route_def weather_stage_def c_def [symmetric]
      by (simp add: close_session_def)
  next
    case (Inr p)
    obtain ok rsn where p: "p = (ok, rsn)" by (cases p)
    show ?thesis
    proof (cases ok)
      case False
      then show ?thesis
        using cc Inr p unfolding out_def after_route_def weather_stage_def c_def [symmetric] eta_def
        by (simp add: split_beta)
    next
      case True
      show ?thesis
      proof (cases "forecast (forecast_client env) dest_lat dest_lon eta")
        case (Inl e)
        then show ?thesis
          using cc Inr p True unfolding out_def after_route_def weather_stage_def c_def [symmetric] eta_def
          by (simp add: split_beta) blast
      next
        case (Inr q)
        then show ?thesis
          using cc \<open>res = Inr p\<close> p True
          unfolding out_def after_route_def weather_stage_def c_def [symmetric] eta_def
          by (cases q) (simp add: split_beta, blast)
      qed
    qed
  qed
qed

lemma after_route_budget_limited:
  assumes r: "trips (pending db) (trip_id t) = Some r"
    and run: "calc_state r = ''running''"
  shows "(\<forall>t'. trips (fst (after_route cfg env db t calls dist_m dur_s geom provider dest_lat dest_lon))
               (trip_id t) = Some t'
           \<longrightarrow> calc_state t' = ''budget_limited''
           \<longrightarrow> next_calc_at t' = Some (recalc_now env + seconds 2700))
       \<and> (\<forall>pct stat bl. snd (snd (after_route cfg env db t calls dist_m dur_s geom provider dest_lat dest_lon))
              = Inr (Recalc_ok pct stat bl)
           \<longrightarrow> (\<exists>t'. trips (fst (after_route cfg env db t calls dist_m dur_s geom provider dest_lat dest_lon))
                        (trip_id t) = Some t'
                \<and> calc_state t' = (if bl then ''budget_limited'' else ''done'')
                \<and> next_calc_at t' = Some (recalc_now env
                     + seconds (next_interval_seconds (policy_mode t) stat bl))))
       \<and> (\<forall>rsn. snd (snd (after_route cfg env db t calls dist_m dur_s geom provider dest_lat dest_lon))
              \<noteq> Inr (Budget_denied_route rsn))"
proof -
  let ?c = "consume_budget cfg (owm_consume_env env) db t ''owm'' ''weather_forecast'' 1"
  let ?out = "after_route cfg env db t calls dist_m dur_s geom provider dest_lat dest_lon"
  let ?eta = "recalc_now env + seconds dur_s"
  have k1: "committed (fst ?c) = pending (fst ?c)" by (rule consume_committed)
  have r1: "trips (committed (fst ?c)) (trip_id t) = Some r" using k1 r by simp
  have r2: "\<And>k p. trips (committed (commit (execute (insert_trip_update (trip_id t) k p) (fst ?c))))
                 (trip_id t) = Some r"
    using r by (simp add: session_defs)
  from after_route_cases [of cfg env db t calls dist_m dur_s geom provider dest_lat dest_lon]
  consider
    (raised) e where "?out = (committed (fst ?c), calls, Inl e)"
  | (denied) rsn where
      "?out = (fst (finish_stage env
                        (commit (execute (insert_trip_update (trip_id t) ''budget_denied''
                           (Denied_payload ''owm'' rsn)) (fst ?c)))
                        t dist_m dur_s geom provider ?eta 0 (Weather_denied rsn) True),
                      calls,
                      Inr (snd (finish_stage env
                        (commit (execute (insert_trip_update (trip_id t) ''budget_denied''
                           (Denied_payload ''owm'' rsn)) (fst ?c)))
                        t dist_m dur_s geom provider ?eta 0 (Weather_denied rsn) True)))"
  | (approved) sev wx where
      "?out = (fst (finish_stage env (fst ?c) t dist_m dur_s geom provider ?eta sev wx False),
                      calls @ [Forecast_call dest_lat dest_lon ?eta],
                      Inr (snd (finish_stage env (fst ?c) t dist_m dur_s geom provider ?eta sev wx False)))"
    by blast
  then show ?thesis
  proof cases
    case raised
    then show ?thesis using r1 run by simp
  next
    case denied
    from finish_stage_trip [OF r2 [of "''budget_denied''" "Denied_payload ''owm'' rsn"], where env = env and dist_m = dist_m and dur_s = dur_s
        and geom = geom and provider = provider and eta = ?eta and sev = 0
        and wx = "Weather_denied rsn" and bl = True]
    obtain t' pct stat where
      "trips (fst (finish_stage env
                        (commit (execute (insert_trip_update (trip_id t) ''budget_denied''
                           (Denied_payload ''owm'' rsn)) (fst ?c)))
                        t dist_m dur_s geom provider ?eta 0 (Weather_denied rsn) True)) (trip_id t) = Some t'"
      "snd (finish_stage env
                        (commit (execute (insert_trip_update (trip_id t) ''budget_denied''
                           (Denied_payload ''owm'' rsn)) (fst ?c)))
                        t dist_m dur_s geom provider ?eta 0 (Weather_denied rsn) True) = Recalc_ok pct stat True"
      "calc_state t' = ''budget_limited''"
      "next_calc_at t' = Some (recalc_now env + seconds (next_interval_seconds (policy_mode t) stat True))"
      by auto
    then show ?thesis unfolding denied by simp
  next
    case approved
    from finish_stage_trip [OF r1, where env = env and dist_m = dist_m and dur_s = dur_s
        and geom = geom and provider = provider and eta = ?eta and sev = sev
        and wx = wx and bl = False]
    obtain t' pct stat where
      "trips (fst (finish_stage env (fst ?c) t dist_m dur_s geom provider ?eta sev wx False)) (trip_id t) = Some t'"
      "snd (finish_stage env (fst ?c) t dist_m dur_s geom provider ?eta sev wx False) = Recalc_ok pct stat False"
      "calc_state t' = ''done''"
      "next_calc_at t' = Some (recalc_now env + seconds (next_interval_seconds (policy_mode t) stat False))"
      by auto
    then show ?thesis unfolding approved by simp
  qed
qed

lemma recalc_trip_valid_after:
  assumes t: "trips st tid = Some t" and len: "2 \<le> length (points_of t)"
    and cs: "coords_of (points_of t) = Inr coords"
  shows "\<exists>dest_lon dest_lat.
         recalc_trip cfg env st tid =
           (case route_stage cfg env (open_session (started st tid t (recalc_now env))) t coords of
              Inl ended \<Rightarrow> ended
            | Inr (db, calls, dist_m, dur_opt, geom, provider) \<Rightarrow>
               (case dur_opt of
                  None \<Rightarrow> (close_session db, calls, Inl TypeError)
                | Some dur_s \<Rightarrow>
                    after_route cfg env db t calls dist_m dur_s geom provider dest_lat dest_lon))"
  using recalc_trip_valid [OF t len cs, of cfg env] unfolding after_route_def by blast

lemma recalc_bad_coords:
  assumes t: "trips st tid = Some t" and len: "2 \<le> length (points_of t)"
    and cs: "coords_of (points_of t) = Inl e"
  shows "recalc_trip cfg env st tid = (started st tid t (recalc_now env), [], Inl e)"
  using t len cs
  by (simp add: recalc_trip_def Let_def session_defs set_calc_state_def update_trip_def
        insert_trip_update_def started_def)

text \<open>The outcomes of the route stage.\<close>

lemma route_stage_cases:
  fixes cfg env st t coords
  defines "db \<equiv> open_session (started st (trip_id t) t (recalc_now env))"
  defines "c \<equiv> consume_budget cfg (route_consume_env env) db t ''route'' ''route_calc'' 1"
  defines "out \<equiv> route_stage cfg env db t coords"
  shows "(\<not> need_route t \<and> out = Inr (db, [], route_distance_m t, route_duration_s t,
                                        route_geojson t, ''cached''))
       \<or> (need_route t \<and> (\<exists>e. out = Inl (committed (fst c), [], Inl e)))
       \<or> (need_route t \<and> denies cfg st t ''route'' (clock_today (route_consume_env env))
                (minute_bucket (clock_now (route_consume_env env))) 1)
       \<or> (need_route t \<and> (\<exists>e st'. out = Inl (st', [Route_call coords], Inr (Route_failed (exn_text e)))
             \<and> trips st' = (trips st)(trip_id t \<mapsto> t\<lparr>calc_state := ''error'',
                  next_calc_at := Some (recalc_now env + seconds
                     (next_interval_seconds (policy_mode t) (status_or_yellow t) False)),
                  last_calc_at := Some (recalc_now env)\<rparr>)))
       \<or> (need_route t \<and> (\<exists>dist_m dur_s geom provider.
             out = Inr (fst c, [Route_call coords], Some dist_m, Some dur_s, Some geom, provider)))"
proof (cases "need_route t")
  case False
  then show ?thesis by (simp add: out_def route_stage_def)
next
  case True
  obtain db1 res where cc: "c = (db1, res)" by (cases c)
  have "trips (pending (fst c)) = trips (pending db)"
    unfolding c_def by (rule consume_trips)
  then have tr: "trips (pending db1) = trips (started st (trip_id t) t (recalc_now env))"
    by (simp add: cc db_def)
  have "committed (fst c) = pending (fst c)"
    unfolding c_def by (rule consume_committed)
  then have k: "committed db1 = pending db1"
    by (simp add: cc)
  show ?thesis
  proof (cases res)
    case (Inl e)
    then show ?thesis
      using True cc unfolding out_def route_stage_def c_def [symmetric]
      by (simp add: close_session_def)
  next
    case (Inr p)
    obtain ok rsn where p: "p = (ok, rsn)" by (cases p)
    show ?thesis
    proof (cases ok)
      case False
      with cc Inr p have "\<exists>r. snd c = Inr (False, r)" by simp
      then have "denies cfg (pending db) t ''route'' (clock_today (route_consume_env env))
                (minute_bucket (clock_now (route_consume_env env))) 1"
        unfolding c_def by (simp only: consume_result_denied)
      then show ?thesis using True by (simp add: db_def)
    next
      case ok: True
      show ?thesis
      proof (cases "route_client env coords")
        case (Inl e)
        have "\<exists>st'. out = Inl (st', [Route_call coords], Inr (Route_failed (exn_text e)))
             \<and> trips st' = (trips st)(trip_id t \<mapsto> t\<lparr>calc_state := ''error'',
                  next_calc_at := Some (recalc_now env + seconds
                     (next_interval_seconds (policy_mode t) (status_or_yellow t) False)),
                  last_calc_at := Some (recalc_now env)\<rparr>)"
          using True cc \<open>res = Inr p\<close> p ok Inl tr
          unfolding out_def route_stage_def c_def [symmetric]
          by (simp add: Let_def session_defs set_calc_state_def reschedule_def fun_eq_iff)
        then show ?thesis using True by blast
      next
        case (Inr q)
        obtain dist_m dur_s geom provider where q: "q = (dist_m, dur_s, geom, provider)"
          by (cases q)
        have "out = Inr (fst c, [Route_call coords], Some dist_m, Some dur_s, Some geom, provider)"
          using True cc \<open>res = Inr p\<close> p ok Inr q
          unfolding out_def route_stage_def c_def [symmetric]
          by simp
        then show ?thesis using True by blast
      qed
    qed
  qed
qed

end
